theory Spec2Isabelle
  imports Complex_Main "HOL-Library.Word"
begin

section \<open>The banking service of \<open>src/economy.c\<close>\<close>

text \<open>
  A shallow embedding of the banking NPC service. Every C function becomes a HOL function
  of the same name that takes the memory holding the accounts and returns the outcome of
  the call together with the memory afterwards, so that a call which returns 0 still shows
  what it left behind. \<open>service_report\<close> only prints and has no counterpart here.

  Conventions of the embedding:
  \<^item> \<open>double\<close> is the IEEE 754 binary64 format: the finite values, the two infinities and
    NaN. Every \<open>+\<close>, \<open>-\<close> and \<open>*\<close> of the source is the exact operation on the
    reals followed by one rounding to the nearest representable value, ties to the even
    significand, overflow to an infinity (\<open>rnd\<close>); every comparison is false as soon as
    one side is NaN. The two zeros are one value: the service never divides and never
    tests a sign, so no operation modelled here tells them apart;
  \<^item> \<open>size_t\<close> quantities are 64-bit words, so that \<open>+\<close> and \<open>-\<close> wrap as in C; the
    counters \<open>item_count\<close> and \<open>history_count\<close> only index the two arrays, every
    increment is guarded by the array bound, and they are natural numbers;
  \<^item> a C array \<open>T a[N]\<close> is a function from indices to \<open>T\<close>, of which the code reads
    and writes the indices below \<open>N\<close> only;
  \<^item> an \<open>Account *\<close> is an optional address (\<open>None\<close> is \<open>NULL\<close>) into a memory that
    maps addresses to accounts, so two pointers may name the same account; the service is
    never written by the operations and its pointer is an optional value; a
    \<open>const char *\<close> is an optional string;
  \<^item> \<open>time(NULL)\<close> is an input of the call: every operation that records history takes
    the clock readings it makes as arguments;
  \<^item> the \<open>int\<close> result and the message written to the \<open>error\<close> buffer are one value
    \<open>error option\<close>: \<open>None\<close> is the result 1, \<open>Some e\<close> is the result 0 where \<open>e\<close>
    names the message of that branch (\<open>NullPointer\<close> for the branches that write none).

  The struct fields \<open>description\<close>, \<open>amount\<close>, \<open>name\<close> and \<open>quantity\<close> share their
  names with function parameters of the source; the parameters keep the names and the
  fields are \<open>entry_description\<close>, \<open>entry_amount\<close>, \<open>item_name\<close>, \<open>item_quantity\<close> and
  \<open>service_name\<close>.
\<close>

subsection \<open>Double precision numbers\<close>

text \<open>
  A finite double is \<open>Finite x\<close> for a real \<open>x\<close> of the form \<open>n * 2 ^ j\<close> with
  \<open>\<bar>n\<bar> < 2 ^ 53\<close> and \<open>- 1074 \<le> j \<le> 971\<close> (\<open>representable\<close>). The type has more
  values than that; the operations below return representable ones only.
\<close>

datatype double = Finite real | PInf | MInf | NaN

definition representable :: "real \<Rightarrow> bool" where
  "representable x =
     (\<exists>n j. \<bar>n\<bar> < 2 ^ 53 \<and> - 1074 \<le> j \<and> j \<le> 971 \<and> x = real_of_int n * 2 powi j)"

fun is_double :: "double \<Rightarrow> bool" where
  "is_double (Finite x) = representable x"
| "is_double PInf = True"
| "is_double MInf = True"
| "is_double NaN = True"

text \<open>Rounding a real to the nearest integer, a tie to the even one.\<close>

definition round_half_even :: "real \<Rightarrow> int" where
  "round_half_even x =
     (let f = \<lfloor>x\<rfloor>; r = x - of_int f
      in if r < 1/2 then f else if 1/2 < r then f + 1 else if even f then f else f + 1)"

text \<open>
  The exponent of the unit in the last place at \<open>x \<noteq> 0\<close>: 52 binary places below the
  leading bit of \<open>x\<close>, and never below the subnormal spacing \<open>2 ^ - 1074\<close>.
\<close>

definition ulp_exponent :: "real \<Rightarrow> int" where
  "ulp_exponent x = max (\<lfloor>log 2 \<bar>x\<bar>\<rfloor> - 52) (- 1074)"

definition overflow_threshold :: real where
  "overflow_threshold = 2 ^ 1024"

text \<open>
  Round to nearest, ties to even: \<open>x\<close> is rounded to a multiple of its unit in the last
  place; a result of magnitude \<open>2 ^ 1024\<close> or more is an infinity.
\<close>

definition rnd :: "real \<Rightarrow> double" where
  "rnd x =
     (if x = 0 then Finite 0
      else
        (let e = ulp_exponent x;
             y = of_int (round_half_even (x / 2 powi e)) * 2 powi e
         in if overflow_threshold \<le> \<bar>y\<bar> then (if 0 < x then PInf else MInf) else Finite y))"

fun dneg :: "double \<Rightarrow> double" where
  "dneg (Finite x) = Finite (- x)"
| "dneg PInf = MInf"
| "dneg MInf = PInf"
| "dneg NaN = NaN"

fun dadd :: "double \<Rightarrow> double \<Rightarrow> double" where
  "dadd (Finite x) (Finite y) = rnd (x + y)"
| "dadd (Finite x) PInf = PInf"
| "dadd (Finite x) MInf = MInf"
| "dadd (Finite x) NaN = NaN"
| "dadd PInf (Finite y) = PInf"
| "dadd PInf PInf = PInf"
| "dadd PInf MInf = NaN"
| "dadd PInf NaN = NaN"
| "dadd MInf (Finite y) = MInf"
| "dadd MInf PInf = NaN"
| "dadd MInf MInf = MInf"
| "dadd MInf NaN = NaN"
| "dadd NaN b = NaN"

definition dsub :: "double \<Rightarrow> double \<Rightarrow> double" where
  "dsub a b = dadd a (dneg b)"

fun dmul :: "double \<Rightarrow> double \<Rightarrow> double" where
  "dmul (Finite x) (Finite y) = rnd (x * y)"
| "dmul (Finite x) PInf = (if x = 0 then NaN else if 0 < x then PInf else MInf)"
| "dmul (Finite x) MInf = (if x = 0 then NaN else if 0 < x then MInf else PInf)"
| "dmul (Finite x) NaN = NaN"
| "dmul PInf (Finite y) = (if y = 0 then NaN else if 0 < y then PInf else MInf)"
| "dmul PInf PInf = PInf"
| "dmul PInf MInf = MInf"
| "dmul PInf NaN = NaN"
| "dmul MInf (Finite y) = (if y = 0 then NaN else if 0 < y then MInf else PInf)"
| "dmul MInf PInf = MInf"
| "dmul MInf MInf = PInf"
| "dmul MInf NaN = NaN"
| "dmul NaN b = NaN"

text \<open>The comparisons \<open><\<close> and \<open><=\<close>; \<open>a > b\<close> is \<open>b < a\<close> and \<open>a >= b\<close> is \<open>b <= a\<close>.\<close>

fun dlt :: "double \<Rightarrow> double \<Rightarrow> bool" where
  "dlt (Finite x) (Finite y) = (x < y)"
| "dlt (Finite x) PInf = True"
| "dlt (Finite x) MInf = False"
| "dlt (Finite x) NaN = False"
| "dlt PInf b = False"
| "dlt MInf (Finite y) = True"
| "dlt MInf PInf = True"
| "dlt MInf MInf = False"
| "dlt MInf NaN = False"
| "dlt NaN b = False"

fun dle :: "double \<Rightarrow> double \<Rightarrow> bool" where
  "dle (Finite x) (Finite y) = (x \<le> y)"
| "dle (Finite x) PInf = True"
| "dle (Finite x) MInf = False"
| "dle (Finite x) NaN = False"
| "dle PInf (Finite y) = False"
| "dle PInf PInf = True"
| "dle PInf MInf = False"
| "dle PInf NaN = False"
| "dle MInf (Finite y) = True"
| "dle MInf PInf = True"
| "dle MInf MInf = True"
| "dle MInf NaN = False"
| "dle NaN b = False"

definition dgt :: "double \<Rightarrow> double \<Rightarrow> bool" where
  "dgt a b = dlt b a"

definition dge :: "double \<Rightarrow> double \<Rightarrow> bool" where
  "dge a b = dle b a"

text \<open>The conversion \<open>(double)quantity\<close> of a \<open>size_t\<close>.\<close>

definition double_of_size_t :: "64 word \<Rightarrow> double" where
  "double_of_size_t q = rnd (real (unat q))"

text \<open>The real number a finite double stands for (0 for the others).\<close>

fun real_of_double :: "double \<Rightarrow> real" where
  "real_of_double (Finite x) = x"
| "real_of_double PInf = 0"
| "real_of_double MInf = 0"
| "real_of_double NaN = 0"

subsection \<open>Constants and data\<close>

type_synonym size_t = "64 word"
type_synonym time_t = int
type_synonym addr = nat

definition MAX_ITEMS :: nat where
  "MAX_ITEMS = 32"

definition MAX_ITEM_NAME :: nat where
  "MAX_ITEM_NAME = 48"

definition MAX_SERVICE_NAME :: nat where
  "MAX_SERVICE_NAME = 48"

definition MAX_TRANSACTION_HISTORY :: nat where
  "MAX_TRANSACTION_HISTORY = 64"

definition BANK_MIN_TRANSACTION :: double where
  "BANK_MIN_TRANSACTION = Finite 1"

definition BANK_MAX_TRANSACTION :: double where
  "BANK_MAX_TRANSACTION = Finite 10000"

definition BANK_MAX_DAILY_TOTAL :: double where
  "BANK_MAX_DAILY_TOTAL = Finite 25000"

definition BANK_MAX_ITEM_QUANTITY :: size_t where
  "BANK_MAX_ITEM_QUANTITY = 999"

record TransactionEntry =
  timestamp :: time_t
  entry_description :: string
  entry_amount :: double
  resulting_balance :: double

record ItemSlot =
  item_name :: string
  item_quantity :: size_t

record Account =
  owner :: string
  balance :: double
  investment_balance :: double
  daily_total :: double
  items :: "nat \<Rightarrow> ItemSlot"
  item_count :: nat
  history :: "nat \<Rightarrow> TransactionEntry"
  history_count :: nat

record BankingService =
  service_name :: string
  deposit_fee :: double
  withdrawal_fee :: double
  transfer_fee :: double
  investment_rate :: double
  daily_limit :: double

type_synonym memory = "addr \<Rightarrow> Account"

text \<open>One constructor for each \<open>return 0\<close> of the source, named after its message.\<close>

datatype error =
    NullPointer
  | BelowMinimum
  | AboveMaximum
  | DailyLimitExceeded
  | DepositFeeRejected
  | WithdrawalFeeRejected
  | InsufficientBalance
  | TransferInsufficient
  | TransferTooSmallAfterFee
  | InvestNotPositive
  | InvestInsufficient
  | WithdrawInvestmentNotPositive
  | WithdrawInvestmentInsufficient
  | InvalidStorageRequest
  | QuantityExceedsLimit
  | VaultFull
  | TotalQuantityExceedsLimit
  | InvalidRetrievalRequest
  | ItemNotFound
  | NotEnoughStored

text \<open>\<open>snprintf(buf, size, "%s", s)\<close>: the first \<open>size - 1\<close> characters of \<open>s\<close>.\<close>

definition snprintf_s :: "nat \<Rightarrow> string \<Rightarrow> string" where
  "snprintf_s n s = take (n - 1) s"

text \<open>\<open>memmove(history, history + 1, sizeof(TransactionEntry) * (MAX_TRANSACTION_HISTORY - 1))\<close>\<close>

definition memmove_history :: "(nat \<Rightarrow> TransactionEntry) \<Rightarrow> (nat \<Rightarrow> TransactionEntry)" where
  "memmove_history hist = (\<lambda>i. if i < MAX_TRANSACTION_HISTORY - 1 then hist (i + 1) else hist i)"

subsection \<open>Account helpers\<close>

definition account_add_history ::
    "addr option \<Rightarrow> time_t \<Rightarrow> string \<Rightarrow> double \<Rightarrow> memory \<Rightarrow> memory" where
  "account_add_history account now description amount m =
     (case account of
        None \<Rightarrow> m
      | Some p \<Rightarrow>
          (let a = m p;
               entry = \<lparr>timestamp = now,
                        entry_description = snprintf_s 96 description,
                        entry_amount = amount,
                        resulting_balance = balance a\<rparr>
           in if history_count a < MAX_TRANSACTION_HISTORY
              then m(p := a\<lparr>history := (history a)(history_count a := entry),
                             history_count := history_count a + 1\<rparr>)
              else m(p := a\<lparr>history :=
                     (memmove_history (history a))(MAX_TRANSACTION_HISTORY - 1 := entry)\<rparr>)))"

definition account_reset :: "addr option \<Rightarrow> string option \<Rightarrow> double \<Rightarrow> memory \<Rightarrow> memory" where
  "account_reset account owner_str initial_balance m =
     (case account of
        None \<Rightarrow> m
      | Some p \<Rightarrow>
          m(p := (m p)\<lparr>owner := snprintf_s 64 (case owner_str of Some s \<Rightarrow> s | None \<Rightarrow> ''Unknown''),
                        balance := (if dlt initial_balance (Finite 0) then Finite 0
                                    else initial_balance),
                        investment_balance := Finite 0,
                        daily_total := Finite 0,
                        item_count := 0,
                        history_count := 0\<rparr>))"

subsection \<open>Validation gates\<close>

definition enforce_amount :: "double \<Rightarrow> error option" where
  "enforce_amount amount =
     (if dlt amount BANK_MIN_TRANSACTION then Some BelowMinimum
      else if dgt amount BANK_MAX_TRANSACTION then Some AboveMaximum
      else None)"

definition enforce_daily ::
    "BankingService option \<Rightarrow> addr option \<Rightarrow> double \<Rightarrow> memory \<Rightarrow> error option" where
  "enforce_daily service account amount m =
     (case (service, account) of
        (Some s, Some p) \<Rightarrow>
          (let limit = (if dgt (daily_limit s) (Finite 0) then daily_limit s
                        else BANK_MAX_DAILY_TOTAL);
               projected = dadd (daily_total (m p)) amount
           in if dgt projected limit then Some DailyLimitExceeded else None)
      | _ \<Rightarrow> Some NullPointer)"

text \<open>
  \<open>apply_fee\<close> returns 0 (\<open>None\<close>) or 1 with the value it leaves in \<open>*amount\<close>; every
  caller passes the address of its own local, which is never \<open>NULL\<close>.
\<close>

definition apply_fee :: "BankingService option \<Rightarrow> double \<Rightarrow> double \<Rightarrow> double option" where
  "apply_fee service amount fee =
     (case service of
        None \<Rightarrow> None
      | Some s \<Rightarrow>
          if dle fee (Finite 0) then Some amount
          else (let after_fee = dsub amount fee
                in if dlt after_fee BANK_MIN_TRANSACTION then None else Some after_fee))"

subsection \<open>Currency operations\<close>

definition service_deposit ::
    "BankingService option \<Rightarrow> addr option \<Rightarrow> double \<Rightarrow> time_t \<Rightarrow> memory \<Rightarrow> error option \<times> memory" where
  "service_deposit service account amount now m =
     (case (service, account) of
        (Some s, Some p) \<Rightarrow>
          (let requested = amount in
           case enforce_amount amount of
             Some e \<Rightarrow> (Some e, m)
           | None \<Rightarrow>
           (case enforce_daily service account requested m of
             Some e \<Rightarrow> (Some e, m)
           | None \<Rightarrow>
           (case apply_fee service amount (deposit_fee s) of
             None \<Rightarrow> (Some DepositFeeRejected, m)
           | Some amount' \<Rightarrow>
               (let m1 = m(p := (m p)\<lparr>balance := dadd (balance (m p)) amount'\<rparr>);
                    m2 = m1(p := (m1 p)\<lparr>daily_total := dadd (daily_total (m1 p)) requested\<rparr>);
                    m3 = account_add_history account now ''Deposit'' amount' m2
                in (None, m3)))))
      | _ \<Rightarrow> (Some NullPointer, m))"

definition service_withdraw ::
    "BankingService option \<Rightarrow> addr option \<Rightarrow> double \<Rightarrow> time_t \<Rightarrow> memory \<Rightarrow> error option \<times> memory" where
  "service_withdraw service account amount now m =
     (case (service, account) of
        (Some s, Some p) \<Rightarrow>
          (let requested = amount in
           case enforce_amount amount of
             Some e \<Rightarrow> (Some e, m)
           | None \<Rightarrow>
           (case enforce_daily service account requested m of
             Some e \<Rightarrow> (Some e, m)
           | None \<Rightarrow>
           (case apply_fee service amount (withdrawal_fee s) of
             None \<Rightarrow> (Some WithdrawalFeeRejected, m)
           | Some amount' \<Rightarrow>
               if dlt (balance (m p)) amount' then (Some InsufficientBalance, m)
               else
               (let m1 = m(p := (m p)\<lparr>balance := dsub (balance (m p)) amount'\<rparr>);
                    m2 = m1(p := (m1 p)\<lparr>daily_total := dadd (daily_total (m1 p)) requested\<rparr>);
                    m3 = account_add_history account now ''Withdrawal'' (dneg amount') m2
                in (None, m3)))))
      | _ \<Rightarrow> (Some NullPointer, m))"

text \<open>
  \<open>from\<close> and \<open>to\<close> may be the same address: the three assignments are made one after
  the other on the memory, as the C statements are. The two history entries read the clock
  separately (\<open>now_sent\<close>, \<open>now_received\<close>).
\<close>

definition service_transfer ::
    "BankingService option \<Rightarrow> addr option \<Rightarrow> addr option \<Rightarrow> double \<Rightarrow> time_t \<Rightarrow> time_t \<Rightarrow>
     memory \<Rightarrow> error option \<times> memory" where
  "service_transfer service from to amount now_sent now_received m =
     (case (service, from, to) of
        (Some s, Some f, Some t) \<Rightarrow>
          (case enforce_amount amount of
             Some e \<Rightarrow> (Some e, m)
           | None \<Rightarrow>
           (case enforce_daily service from amount m of
             Some e \<Rightarrow> (Some e, m)
           | None \<Rightarrow>
             if dlt (balance (m f)) amount then (Some TransferInsufficient, m)
             else
             (let fee = transfer_fee s in
              if dgt fee (Finite 0) \<and> dlt (dsub amount fee) BANK_MIN_TRANSACTION
              then (Some TransferTooSmallAfterFee, m)
              else
              (let credited = (if dgt fee (Finite 0) then dsub amount fee else amount);
                   m1 = m(f := (m f)\<lparr>balance := dsub (balance (m f)) amount\<rparr>);
                   m2 = m1(t := (m1 t)\<lparr>balance := dadd (balance (m1 t)) credited\<rparr>);
                   m3 = m2(f := (m2 f)\<lparr>daily_total := dadd (daily_total (m2 f)) amount\<rparr>);
                   m4 = account_add_history from now_sent ''Transfer Sent'' (dneg amount) m3;
                   m5 = account_add_history to now_received ''Transfer Received'' credited m4
               in (None, m5)))))
      | _ \<Rightarrow> (Some NullPointer, m))"

subsection \<open>Investments\<close>

definition service_invest ::
    "BankingService option \<Rightarrow> addr option \<Rightarrow> double \<Rightarrow> time_t \<Rightarrow> memory \<Rightarrow> error option \<times> memory" where
  "service_invest service account amount now m =
     (case (service, account) of
        (Some s, Some p) \<Rightarrow>
          if dle amount (Finite 0) then (Some InvestNotPositive, m)
          else if dlt (balance (m p)) amount then (Some InvestInsufficient, m)
          else
          (let m1 = m(p := (m p)\<lparr>balance := dsub (balance (m p)) amount\<rparr>);
               m2 = m1(p := (m1 p)\<lparr>investment_balance :=
                      dadd (investment_balance (m1 p)) amount\<rparr>);
               m3 = account_add_history account now ''Investment Deposit'' (dneg amount) m2
           in (None, m3))
      | _ \<Rightarrow> (Some NullPointer, m))"

definition service_apply_investment_yield ::
    "BankingService option \<Rightarrow> addr option \<Rightarrow> time_t \<Rightarrow> memory \<Rightarrow> memory" where
  "service_apply_investment_yield service account now m =
     (case (service, account) of
        (Some s, Some p) \<Rightarrow>
          if dle (investment_balance (m p)) (Finite 0) \<or> dle (investment_rate s) (Finite 0)
          then m
          else
          (let yield = dmul (investment_balance (m p)) (investment_rate s);
               m1 = m(p := (m p)\<lparr>investment_balance :=
                      dadd (investment_balance (m p)) yield\<rparr>)
           in account_add_history account now ''Investment Yield'' yield m1)
      | _ \<Rightarrow> m)"

definition service_withdraw_investment ::
    "BankingService option \<Rightarrow> addr option \<Rightarrow> double \<Rightarrow> time_t \<Rightarrow> memory \<Rightarrow> error option \<times> memory" where
  "service_withdraw_investment service account amount now m =
     (case account of
        None \<Rightarrow> (Some NullPointer, m)
      | Some p \<Rightarrow>
          if dle amount (Finite 0) then (Some WithdrawInvestmentNotPositive, m)
          else if dlt (investment_balance (m p)) amount
          then (Some WithdrawInvestmentInsufficient, m)
          else
          (let m1 = m(p := (m p)\<lparr>investment_balance :=
                      dsub (investment_balance (m p)) amount\<rparr>);
               m2 = m1(p := (m1 p)\<lparr>balance := dadd (balance (m1 p)) amount\<rparr>);
               m3 = account_add_history account now ''Investment Withdrawal'' amount m2
           in (None, m3)))"

subsection \<open>Item storage\<close>

text \<open>The loop of \<open>account_find_item\<close>, from index \<open>i\<close>; \<open>None\<close> is \<open>SIZE_MAX\<close>.\<close>

function account_find_item_loop :: "(nat \<Rightarrow> ItemSlot) \<Rightarrow> nat \<Rightarrow> string \<Rightarrow> nat \<Rightarrow> nat option" where
  "account_find_item_loop its n str i =
     (if i < n
      then (if item_name (its i) = str then Some i
            else account_find_item_loop its n str (Suc i))
      else None)"
  by pat_completeness auto
termination
  by (relation "measure (\<lambda>(its, n, str, i). n - i)") auto

declare account_find_item_loop.simps [simp del]

definition account_find_item :: "addr option \<Rightarrow> string option \<Rightarrow> memory \<Rightarrow> nat option" where
  "account_find_item account name m =
     (case (account, name) of
        (Some p, Some str) \<Rightarrow> account_find_item_loop (items (m p)) (item_count (m p)) str 0
      | _ \<Rightarrow> None)"

definition service_store_item ::
    "addr option \<Rightarrow> string option \<Rightarrow> size_t \<Rightarrow> time_t \<Rightarrow> memory \<Rightarrow> error option \<times> memory" where
  "service_store_item account name quantity now m =
     (case (account, name) of
        (Some p, Some str) \<Rightarrow>
          if quantity = 0 then (Some InvalidStorageRequest, m)
          else if quantity > BANK_MAX_ITEM_QUANTITY then (Some QuantityExceedsLimit, m)
          else
          (case (case account_find_item account name m of
                   Some i \<Rightarrow> Inr (i, m)
                 | None \<Rightarrow>
                     if item_count (m p) \<ge> MAX_ITEMS then Inl VaultFull
                     else
                     (let index = item_count (m p);
                          m1 = m(p := (m p)\<lparr>item_count := item_count (m p) + 1\<rparr>);
                          m2 = m1(p := (m1 p)\<lparr>items := (items (m1 p))
                                 (index := (items (m1 p) index)
                                    \<lparr>item_name := snprintf_s MAX_ITEM_NAME str\<rparr>)\<rparr>);
                          m3 = m2(p := (m2 p)\<lparr>items := (items (m2 p))
                                 (index := (items (m2 p) index)\<lparr>item_quantity := 0\<rparr>)\<rparr>)
                      in Inr (index, m3))) of
             Inl e \<Rightarrow> (Some e, m)
           | Inr (index, m') \<Rightarrow>
               if item_quantity (items (m' p) index) + quantity > BANK_MAX_ITEM_QUANTITY
               then (Some TotalQuantityExceedsLimit, m')
               else
               (let m4 = m'(p := (m' p)\<lparr>items := (items (m' p))
                              (index := (items (m' p) index)
                                 \<lparr>item_quantity := item_quantity (items (m' p) index) + quantity\<rparr>)\<rparr>);
                    m5 = account_add_history account now ''Item Stored''
                           (double_of_size_t quantity) m4
                in (None, m5)))
      | _ \<Rightarrow> (Some InvalidStorageRequest, m))"

text \<open>
  The compaction loop of \<open>service_retrieve_item\<close>:
  \<open>for (i = index; i + 1 < item_count; ++i) items[i] = items[i + 1];\<close>
\<close>

function shift_items :: "(nat \<Rightarrow> ItemSlot) \<Rightarrow> nat \<Rightarrow> nat \<Rightarrow> (nat \<Rightarrow> ItemSlot)" where
  "shift_items its n i =
     (if i + 1 < n then shift_items (its(i := its (i + 1))) n (i + 1) else its)"
  by pat_completeness auto
termination
  by (relation "measure (\<lambda>(its, n, i). n - i)") auto

declare shift_items.simps [simp del]

definition service_retrieve_item ::
    "addr option \<Rightarrow> string option \<Rightarrow> size_t \<Rightarrow> time_t \<Rightarrow> memory \<Rightarrow> error option \<times> memory" where
  "service_retrieve_item account name quantity now m =
     (case (account, name) of
        (Some p, Some str) \<Rightarrow>
          if quantity = 0 then (Some InvalidRetrievalRequest, m)
          else
          (case account_find_item account name m of
             None \<Rightarrow> (Some ItemNotFound, m)
           | Some index \<Rightarrow>
               if item_quantity (items (m p) index) < quantity then (Some NotEnoughStored, m)
               else
               (let m1 = m(p := (m p)\<lparr>items := (items (m p))
                              (index := (items (m p) index)
                                 \<lparr>item_quantity := item_quantity (items (m p) index) - quantity\<rparr>)\<rparr>);
                    m2 = account_add_history account now ''Item Retrieved''
                           (dneg (double_of_size_t quantity)) m1
                in if item_quantity (items (m2 p) index) = 0
                   then
                     (let m3 = m2(p := (m2 p)\<lparr>items :=
                                   shift_items (items (m2 p)) (item_count (m2 p)) index\<rparr>);
                          m4 = m3(p := (m3 p)\<lparr>item_count := item_count (m3 p) - 1\<rparr>)
                      in (None, m4))
                   else (None, m2)))
      | _ \<Rightarrow> (Some InvalidRetrievalRequest, m))"

subsection \<open>Daily reset and service set-up\<close>

definition service_reset_daily :: "addr option \<Rightarrow> memory \<Rightarrow> memory" where
  "service_reset_daily account m =
     (case account of
        None \<Rightarrow> m
      | Some p \<Rightarrow> m(p := (m p)\<lparr>daily_total := Finite 0\<rparr>))"

text \<open>
  \<open>service_init\<close> fills the service a non-null pointer names; the argument \<open>service\<close> is
  the service before the call, the result the service after it.
\<close>

definition service_init ::
    "BankingService option \<Rightarrow> string option \<Rightarrow> double \<Rightarrow> double \<Rightarrow> double \<Rightarrow> double \<Rightarrow> double \<Rightarrow>
     BankingService option" where
  "service_init service name dep_fee wd_fee tr_fee inv_rate limit =
     (case service of
        None \<Rightarrow> None
      | Some s \<Rightarrow>
          Some (s\<lparr>service_name := snprintf_s MAX_SERVICE_NAME
                                    (case name of Some str \<Rightarrow> str | None \<Rightarrow> ''Bank''),
                  deposit_fee := dep_fee,
                  withdrawal_fee := wd_fee,
                  transfer_fee := tr_fee,
                  investment_rate := inv_rate,
                  daily_limit := (if dle limit (Finite 0) then BANK_MAX_DAILY_TOTAL else limit)\<rparr>))"

subsection \<open>Sequences of calls\<close>

text \<open>
  A driving program makes one call after the other on the same memory. A \<open>call\<close> is one
  invocation of an operation with its arguments; \<open>run_call\<close> makes it, \<open>run_calls\<close> makes
  a list of them from left to right.
\<close>

datatype call =
    Deposit "BankingService option" "addr option" double time_t
  | Withdraw "BankingService option" "addr option" double time_t
  | Transfer "BankingService option" "addr option" "addr option" double time_t time_t
  | Invest "BankingService option" "addr option" double time_t
  | ApplyYield "BankingService option" "addr option" time_t
  | WithdrawInvestment "BankingService option" "addr option" double time_t
  | StoreItem "addr option" "string option" size_t time_t
  | RetrieveItem "addr option" "string option" size_t time_t
  | ResetDaily "addr option"

fun run_call :: "call \<Rightarrow> memory \<Rightarrow> error option \<times> memory" where
  "run_call (Deposit s a x t) m = service_deposit s a x t m"
| "run_call (Withdraw s a x t) m = service_withdraw s a x t m"
| "run_call (Transfer s a b x t t') m = service_transfer s a b x t t' m"
| "run_call (Invest s a x t) m = service_invest s a x t m"
| "run_call (ApplyYield s a t) m = (None, service_apply_investment_yield s a t m)"
| "run_call (WithdrawInvestment s a x t) m = service_withdraw_investment s a x t m"
| "run_call (StoreItem a n q t) m = service_store_item a n q t m"
| "run_call (RetrieveItem a n q t) m = service_retrieve_item a n q t m"
| "run_call (ResetDaily a) m = (None, service_reset_daily a m)"

fun run_calls :: "call list \<Rightarrow> memory \<Rightarrow> memory" where
  "run_calls [] m = m"
| "run_calls (c # cs) m = run_calls cs (snd (run_call c m))"

text \<open>
  A call is finite when the amount it passes is a finite double and the fees and the rate
  of its service are not NaN; item calls and the daily reset pass no amount.
\<close>

fun is_finite :: "double \<Rightarrow> bool" where
  "is_finite (Finite x) = True"
| "is_finite PInf = False"
| "is_finite MInf = False"
| "is_finite NaN = False"

definition nan_free :: "BankingService option \<Rightarrow> bool" where
  "nan_free service =
     (case service of
        None \<Rightarrow> True
      | Some s \<Rightarrow> deposit_fee s \<noteq> NaN \<and> withdrawal_fee s \<noteq> NaN \<and>
                  transfer_fee s \<noteq> NaN \<and> investment_rate s \<noteq> NaN)"

fun finite_call :: "call \<Rightarrow> bool" where
  "finite_call (Deposit s a x t) = (nan_free s \<and> is_finite x)"
| "finite_call (Withdraw s a x t) = (nan_free s \<and> is_finite x)"
| "finite_call (Transfer s a b x t t') = (nan_free s \<and> is_finite x)"
| "finite_call (Invest s a x t) = is_finite x"
| "finite_call (ApplyYield s a t) = nan_free s"
| "finite_call (WithdrawInvestment s a x t) = is_finite x"
| "finite_call (StoreItem a n q t) = True"
| "finite_call (RetrieveItem a n q t) = True"
| "finite_call (ResetDaily a) = True"

text \<open>The live part of the history array, oldest entry first.\<close>

definition history_entries :: "Account \<Rightarrow> TransactionEntry list" where
  "history_entries a = map (history a) [0..<history_count a]"

subsection \<open>Sample data\<close>

text \<open>
  The service and the account of the demonstration \<open>main\<close>, built by the same calls:
  \<open>service_init(&service, "Guild Treasurer", 0.25, 0.5, 0.1, 0.05, 15000.0)\<close> and
  \<open>account_reset(&hero, "Hero", 500.0)\<close>, on zeroed memory. The hero lives at address 0.
  A decimal literal of the source is the double nearest to it: \<open>0.1\<close> is \<open>rnd (1/10)\<close>.
\<close>

definition blank_account :: Account where
  "blank_account =
     \<lparr>owner = [], balance = Finite 0, investment_balance = Finite 0, daily_total = Finite 0,
      items = (\<lambda>i. \<lparr>item_name = [], item_quantity = 0\<rparr>), item_count = 0,
      history = (\<lambda>i. \<lparr>timestamp = 0, entry_description = [], entry_amount = Finite 0,
                        resulting_balance = Finite 0\<rparr>),
      history_count = 0\<rparr>"

definition blank_memory :: memory where
  "blank_memory = (\<lambda>p. blank_account)"

definition blank_service :: BankingService where
  "blank_service =
     \<lparr>service_name = [], deposit_fee = Finite 0, withdrawal_fee = Finite 0,
      transfer_fee = Finite 0, investment_rate = Finite 0, daily_limit = Finite 0\<rparr>"

definition demo_service :: "BankingService option" where
  "demo_service =
     service_init (Some blank_service) (Some ''Guild Treasurer'')
       (rnd (1/4)) (rnd (1/2)) (rnd (1/10)) (rnd (1/20)) (rnd 15000)"

definition hero_memory :: memory where
  "hero_memory = account_reset (Some 0) (Some ''Hero'') (Finite 500) blank_memory"

text \<open>Two accounts, at the addresses 0 and 1, opened with \<open>2 ^ 53\<close> each.\<close>

definition twin_memory :: memory where
  "twin_memory =
     account_reset (Some 1) (Some ''Twin'') (Finite 9007199254740992)
       (account_reset (Some 0) (Some ''Hero'') (Finite 9007199254740992) blank_memory)"

text \<open>
  The hero after three deposits of 10000, 10000 and 4999 at a service without fees and
  with the default daily limit: the daily total is 24999.
\<close>

definition busy_memory :: memory where
  "busy_memory =
     run_calls [Deposit (Some blank_service) (Some 0) (Finite 10000) 1,
                Deposit (Some blank_service) (Some 0) (Finite 10000) 2,
                Deposit (Some blank_service) (Some 0) (Finite 4999) 3] hero_memory"

text \<open>A service without fees and with a daily limit of 100.\<close>

definition teller :: BankingService where
  "teller = blank_service\<lparr>daily_limit := Finite 100\<rparr>"

text \<open>
  The double next above 1.0, which is \<open>1 + 2 ^ - 52\<close>, and the double \<open>2 ^ - 70\<close>.
\<close>

definition one_plus_ulp :: double where
  "one_plus_ulp = Finite (1 + 1 / 2 ^ 52)"

definition tiny_fee :: double where
  "tiny_fee = Finite (1 / 2 ^ 70)"

text \<open>A service with a deposit fee and a withdrawal fee of 5.\<close>

definition cashier :: BankingService where
  "cashier = blank_service\<lparr>deposit_fee := Finite 5, withdrawal_fee := Finite 5\<rparr>"

text \<open>A service whose only fee is a deposit fee of \<open>2 ^ - 70\<close>.\<close>

definition clerk :: BankingService where
  "clerk = blank_service\<lparr>deposit_fee := tiny_fee\<rparr>"

text \<open>The hero with all 32 item slots in use (names \<open>x\<close>, \<open>xx\<close>, \<open>xxx\<close>, ...).\<close>

definition full_vault :: memory where
  "full_vault =
     hero_memory(0 := (hero_memory 0)
       \<lparr>items := (\<lambda>i. \<lparr>item_name = replicate (Suc i) CHR ''x'', item_quantity = 1\<rparr>),
        item_count := 32\<rparr>)"

text \<open>The hero with all 64 history slots in use; entry \<open>i\<close> carries the timestamp \<open>i\<close>.\<close>

definition full_history :: memory where
  "full_history =
     hero_memory(0 := (hero_memory 0)
       \<lparr>history := (\<lambda>i. \<lparr>timestamp = int i, entry_description = ''Deposit'',
                          entry_amount = Finite 1, resulting_balance = Finite 500\<rparr>),
        history_count := 64\<rparr>)"

text \<open>
  The two balances of an account are not negative, as the C comparisons \<open>balance >= 0\<close>
  and \<open>investment_balance >= 0\<close> decide it: an infinity passes, NaN does not.
\<close>

definition solvent :: "Account \<Rightarrow> bool" where
  "solvent a = (dge (balance a) (Finite 0) \<and> dge (investment_balance a) (Finite 0))"

section \<open>Properties\<close>

subsection \<open>Rounding\<close>

lemma round_half_even_int [simp]: "round_half_even (of_int n) = n"
  by (simp add: round_half_even_def)

lemma round_half_even_bounds:
  "\<lfloor>x\<rfloor> \<le> round_half_even x" "round_half_even x \<le> \<lfloor>x\<rfloor> + 1"
  by (simp_all add: round_half_even_def Let_def)

lemma round_half_even_error: "\<bar>real_of_int (round_half_even x) - x\<bar> \<le> 1/2"
  by (simp add: round_half_even_def Let_def)

lemma round_half_even_ge: "of_int n \<le> x \<Longrightarrow> n \<le> round_half_even x"
  using round_half_even_bounds(1) [of x] by (meson le_floor_iff order_trans)

lemma round_half_even_le:
  assumes "x \<le> of_int n"
  shows "round_half_even x \<le> n"
proof (cases "x = of_int n")
  case True
  then show ?thesis by simp
next
  case False
  with assms have "x < of_int n" by simp
  then have "\<lfloor>x\<rfloor> < n" by (simp add: floor_less_iff)
  then show ?thesis using round_half_even_bounds(2) [of x] by linarith
qed

text \<open>The unit in the last place is fixed by the binade \<open>2 ^ k \<le> \<bar>x\<bar> < 2 ^ (k + 1)\<close>.\<close>

lemma ulp_exponent_eq:
  assumes "2 powi k \<le> \<bar>x\<bar>" and "\<bar>x\<bar> < 2 powi (k + 1)"
  shows "ulp_exponent x = max (k - 52) (- 1074)"
proof -
  have pos: "0 < \<bar>x\<bar>"
    using assms(1) by (smt (verit) zero_less_power_int)
  have a: "(2::real) powr (real_of_int k) = 2 powi k"
    by (simp add: powr_real_of_int')
  have b: "(2::real) powr (real_of_int k + 1) = 2 powi (k + 1)"
    using powr_real_of_int' [of "2::real" "k + 1"] by simp
  have "\<lfloor>log 2 \<bar>x\<bar>\<rfloor> = k"
    using assms pos by (simp add: floor_log_eq_powr_iff a b)
  then show ?thesis by (simp add: ulp_exponent_def)
qed

lemma rnd_binade:
  assumes "2 powi k \<le> \<bar>x\<bar>" and "\<bar>x\<bar> < 2 powi (k + 1)"
  shows "rnd x =
     (let e = max (k - 52) (- 1074);
          y = of_int (round_half_even (x / 2 powi e)) * 2 powi e
      in if overflow_threshold \<le> \<bar>y\<bar> then (if 0 < x then PInf else MInf) else Finite y)"
proof -
  have "x \<noteq> 0"
    using assms(1) by (smt (verit) zero_less_power_int)
  then show ?thesis
    by (simp add: rnd_def ulp_exponent_eq [OF assms])
qed

lemma ulp_exponent_le:
  assumes "x \<noteq> 0" and "\<bar>x\<bar> < 2 powi (j + 53)" and "- 1074 \<le> j"
  shows "ulp_exponent x \<le> j"
proof -
  have "(2::real) powr (real_of_int (j + 53)) = 2 powi (j + 53)"
    by (rule powr_real_of_int') simp_all
  then have "\<bar>x\<bar> < 2 powr (real_of_int (j + 53))"
    using assms(2) by simp
  then have "log 2 \<bar>x\<bar> < real_of_int (j + 53)"
    using assms(1) by (subst log_less_iff) simp_all
  then have "\<lfloor>log 2 \<bar>x\<bar>\<rfloor> < j + 53"
    by (simp add: floor_less_iff)
  then show ?thesis
    using assms(3) by (simp add: ulp_exponent_def)
qed

text \<open>A representable value is not changed by rounding.\<close>

lemma rnd_exact:
  assumes "\<bar>n\<bar> < 2 ^ 53" and "- 1074 \<le> j" and "j \<le> 971"
  shows "rnd (of_int n * 2 powi j) = Finite (of_int n * 2 powi j)"
proof (cases "n = 0")
  case True
  then show ?thesis by (simp add: rnd_def)
next
  case False
  define x where "x = real_of_int n * 2 powi j"
  define e where "e = ulp_exponent x"
  have x0: "x \<noteq> 0" using False by (simp add: x_def)
  have "\<bar>x\<bar> = real_of_int \<bar>n\<bar> * 2 powi j"
    by (simp add: x_def abs_mult)
  also have "\<dots> < 2 ^ 53 * 2 powi j"
  proof -
    have "real_of_int \<bar>n\<bar> < real_of_int (2 ^ 53)"
      using assms(1) by (simp only: of_int_less_iff)
    then show ?thesis
      by (intro mult_strict_right_mono) simp_all
  qed
  finally have absx: "\<bar>x\<bar> < 2 ^ 53 * 2 powi j" .
  also have "\<dots> = 2 powi (j + 53)"
    by (simp add: power_int_add)
  finally have "e \<le> j"
    unfolding e_def using x0 assms(2) by (intro ulp_exponent_le)
  then obtain d :: nat where d: "j = e + int d"
    by (metis nonneg_int_cases diff_ge_0_iff_ge add.commute diff_add_cancel)
  have "(2::real) powi j = 2 ^ d * 2 powi e"
    by (simp add: d power_int_add)
  then have xe: "x = real_of_int (n * 2 ^ d) * 2 powi e"
    by (simp add: x_def)
  then have "x / 2 powi e = real_of_int (n * 2 ^ d)"
    by simp
  then have r: "round_half_even (x / 2 powi e) = n * 2 ^ d"
    by (simp only: round_half_even_int)
  have small: "\<bar>x\<bar> < overflow_threshold"
  proof -
    have "(2::real) powi j \<le> 2 powi 971"
      using assms(3) by (intro power_int_increasing) simp_all
    then have "(2::real) ^ 53 * 2 powi j \<le> 2 ^ 53 * 2 powi 971"
      by simp
    also have "\<dots> = overflow_threshold"
      by (simp add: overflow_threshold_def flip: power_add)
    finally show ?thesis using absx by linarith
  qed
  have y: "real_of_int (round_half_even (x / 2 powi e)) * 2 powi e = x"
    by (simp only: r) (simp only: xe [symmetric])
  have "rnd x =
      (if overflow_threshold \<le> \<bar>x\<bar> then (if 0 < x then PInf else MInf) else Finite x)"
    unfolding rnd_def Let_def e_def [symmetric] y using x0 by (simp only: if_False)
  then have "rnd x = Finite x"
    using small by simp
  then show ?thesis by (simp only: x_def)
qed

lemma rnd_representable: "representable x \<Longrightarrow> rnd x = Finite x"
  by (auto simp: representable_def rnd_exact)

lemma rnd_int: "\<bar>n\<bar> < 2 ^ 53 \<Longrightarrow> rnd (of_int n) = Finite (of_int n)"
  using rnd_exact [of n 0] by simp

lemma rnd_not_NaN [simp]: "rnd x \<noteq> NaN"
  by (simp add: rnd_def Let_def)

text \<open>Rounding keeps the sign and stays within half a unit in the last place.\<close>

lemma rnd_nonneg:
  assumes "0 \<le> x"
  shows "rnd x = PInf \<or> (\<exists>y. rnd x = Finite y \<and> 0 \<le> y)"
proof (cases "x = 0")
  case True
  then show ?thesis by (simp add: rnd_def)
next
  case False
  let ?e = "ulp_exponent x"
  have "0 \<le> x / 2 powi ?e"
    using assms by simp
  then have "0 \<le> round_half_even (x / 2 powi ?e)"
    using round_half_even_ge [of 0] by simp
  then have "0 \<le> real_of_int (round_half_even (x / 2 powi ?e)) * 2 powi ?e"
    by simp
  then show ?thesis
    using False assms by (auto simp: rnd_def Let_def)
qed

lemma rnd_error:
  assumes "rnd x = Finite y"
  shows "\<bar>y - x\<bar> \<le> 2 powi (ulp_exponent x) / 2"
proof (cases "x = 0")
  case True
  with assms show ?thesis by (simp add: rnd_def)
next
  case False
  let ?e = "ulp_exponent x"
  let ?r = "real_of_int (round_half_even (x / 2 powi ?e))"
  have y: "y = ?r * 2 powi ?e"
    using assms False by (simp add: rnd_def Let_def split: if_splits)
  have "y - x = (?r - x / 2 powi ?e) * 2 powi ?e"
    by (simp add: y algebra_simps)
  then have "\<bar>y - x\<bar> = \<bar>?r - x / 2 powi ?e\<bar> * 2 powi ?e"
    by (simp add: abs_mult)
  also have "\<dots> \<le> 1/2 * 2 powi ?e"
    by (intro mult_right_mono round_half_even_error) simp
  finally show ?thesis by simp
qed

text \<open>
  Values of the rounding at the edges of the format and at the numbers used below:
  ties go to the even significand, the largest double is \<open>2 ^ 1024 - 2 ^ 971\<close>, half a
  unit above it overflows, the smallest subnormal is \<open>2 ^ - 1074\<close>, and \<open>0.1\<close> is
  \<open>3602879701896397 / 2 ^ 55\<close>.
\<close>

lemma rnd_values:
  "rnd (2 ^ 53 + 1) = Finite (2 ^ 53)"
  "rnd (2 ^ 53 + 3) = Finite (2 ^ 53 + 4)"
  "rnd (2 ^ 1024 - 2 ^ 971) = Finite (2 ^ 1024 - 2 ^ 971)"
  "rnd (2 ^ 1024 - 2 ^ 970) = PInf"
  "rnd (1 / 2 ^ 1075) = Finite 0"
  "rnd (3 / 2 ^ 1075) = Finite (2 / 2 ^ 1074)"
  "rnd (1/10) = Finite (3602879701896397 / 36028797018963968)"
  "rnd (1/20) = Finite (3602879701896397 / 72057594037927936)"
proof -
  show "rnd (2 ^ 53 + 1) = Finite (2 ^ 53)"
    by (subst rnd_binade [where k = 53])
      (simp_all add: round_half_even_def Let_def overflow_threshold_def)
  show "rnd (2 ^ 53 + 3) = Finite (2 ^ 53 + 4)"
    by (subst rnd_binade [where k = 53])
      (simp_all add: round_half_even_def Let_def overflow_threshold_def)
  show "rnd (2 ^ 1024 - 2 ^ 971) = Finite (2 ^ 1024 - 2 ^ 971)"
    using rnd_exact [of "2 ^ 53 - 1" 971] by (simp add: algebra_simps)
  show "rnd (2 ^ 1024 - 2 ^ 970) = PInf"
    by (subst rnd_binade [where k = 1023])
      (simp_all add: round_half_even_def Let_def overflow_threshold_def)
  show "rnd (1 / 2 ^ 1075) = Finite 0"
    by (subst rnd_binade [where k = "- 1075"])
      (simp_all add: round_half_even_def Let_def overflow_threshold_def)
  show "rnd (3 / 2 ^ 1075) = Finite (2 / 2 ^ 1074)"
    by (subst rnd_binade [where k = "- 1074"])
      (simp_all add: round_half_even_def Let_def overflow_threshold_def)
  show "rnd (1/10) = Finite (3602879701896397 / 36028797018963968)"
    by (subst rnd_binade [where k = "- 4"])
      (simp_all add: round_half_even_def Let_def overflow_threshold_def)
  show "rnd (1/20) = Finite (3602879701896397 / 72057594037927936)"
    by (subst rnd_binade [where k = "- 5"])
      (simp_all add: round_half_even_def Let_def overflow_threshold_def)
qed

text \<open>Whole numbers below \<open>2 ^ 53\<close>, their halves and their quarters are representable.\<close>

lemma rnd_numeral [simp]:
  "(numeral n :: int) < 2 ^ 53 \<Longrightarrow> rnd (numeral n) = Finite (numeral n)"
  using rnd_int [of "numeral n"] by simp

lemma rnd_one [simp]: "rnd 1 = Finite 1"
  using rnd_int [of 1] by simp

lemma rnd_numeral_half [simp]:
  "(numeral n :: int) < 2 ^ 53 \<Longrightarrow> rnd (numeral n / 2) = Finite (numeral n / 2)"
  using rnd_exact [of "numeral n" "- 1"] by simp

lemma rnd_numeral_quarter [simp]:
  "(numeral n :: int) < 2 ^ 53 \<Longrightarrow> rnd (numeral n / 4) = Finite (numeral n / 4)"
  using rnd_exact [of "numeral n" "- 2"] by simp

lemma rnd_one_half [simp]: "rnd (1 / 2) = Finite (1 / 2)"
  using rnd_exact [of 1 "- 1"] by simp

lemma rnd_one_quarter [simp]: "rnd (1 / 4) = Finite (1 / 4)"
  using rnd_exact [of 1 "- 2"] by simp

text \<open>Every result of the rounding is a double.\<close>

lemma rnd_is_double: "is_double (rnd x)"
proof (cases "x = 0")
  case True
  have "representable 0"
    unfolding representable_def by (intro exI [of _ 0]) simp
  with True show ?thesis by (simp add: rnd_def)
next
  case False
  define k where "k = \<lfloor>log 2 \<bar>x\<bar>\<rfloor>"
  define e where "e = max (k - 52) (- 1074)"
  define r where "r = round_half_even (x / 2 powi e)"
  have pk: "(2::real) powr (real_of_int k) = 2 powi k"
    by (simp add: powr_real_of_int')
  have pk1: "(2::real) powr (real_of_int k + 1) = 2 powi (k + 1)"
    using powr_real_of_int' [of "2::real" "k + 1"] by simp
  have "2 powr (real_of_int k) \<le> \<bar>x\<bar> \<and> \<bar>x\<bar> < 2 powr (real_of_int k + 1)"
    using False floor_log_eq_powr_iff [of "\<bar>x\<bar>" 2 k] by (simp add: k_def)
  then have lo: "2 powi k \<le> \<bar>x\<bar>" and hi: "\<bar>x\<bar> < 2 powi (k + 1)"
    by (simp_all add: pk pk1)
  have rn: "rnd x =
      (if overflow_threshold \<le> \<bar>real_of_int r * 2 powi e\<bar>
       then (if 0 < x then PInf else MInf) else Finite (real_of_int r * 2 powi e))"
    by (simp add: rnd_binade [OF lo hi] Let_def e_def r_def)
  show ?thesis
  proof (cases "overflow_threshold \<le> \<bar>real_of_int r * 2 powi e\<bar>")
    case True
    with rn show ?thesis by simp
  next
    case fin: False
    have e_lo: "- 1074 \<le> e" and e_k: "k - 52 \<le> e"
      by (simp_all add: e_def)
    have "(2::real) powi (k + 1) \<le> 2 powi (e + 53)"
      using e_k by (intro power_int_increasing) simp_all
    also have "\<dots> = 2 ^ 53 * 2 powi e"
      by (simp add: power_int_add)
    finally have "\<bar>x\<bar> < 2 ^ 53 * 2 powi e"
      using hi by linarith
    then have "\<bar>x\<bar> / 2 powi e < 2 ^ 53"
      by (simp add: field_simps)
    then have zb: "\<bar>x / 2 powi e\<bar> < 2 ^ 53"
      by simp
    then have z1: "x / 2 powi e \<le> real_of_int (2 ^ 53)"
      and z2: "real_of_int (- (2 ^ 53)) \<le> x / 2 powi e"
      by (simp_all only: abs_less_iff of_int_minus of_int_power of_int_numeral) linarith+
    have "r \<le> 2 ^ 53"
      unfolding r_def using z1 by (rule round_half_even_le)
    moreover have "- (2 ^ 53) \<le> r"
      unfolding r_def using z2 by (rule round_half_even_ge)
    ultimately have rb: "\<bar>r\<bar> \<le> 2 ^ 53"
      by simp
    have y: "\<bar>real_of_int r * 2 powi e\<bar> = real_of_int \<bar>r\<bar> * 2 powi e"
      by (simp add: abs_mult)
    have "representable (real_of_int r * 2 powi e)"
    proof (cases "\<bar>r\<bar> < 2 ^ 53")
      case True
      have "e \<le> 971"
      proof (rule ccontr)
        assume "\<not> e \<le> 971"
        then have big: "972 \<le> e" by simp
        then have ek: "e = k - 52" by (simp add: e_def)
        have "2 ^ 52 * 2 powi e = (2::real) powi k"
          by (simp add: ek power_int_diff)
        then have "2 ^ 52 * 2 powi e \<le> \<bar>x\<bar>"
          using lo by simp
        then have "2 ^ 52 \<le> \<bar>x\<bar> / 2 powi e"
          by (simp add: field_simps)
        then have zl: "real_of_int (2 ^ 52) \<le> \<bar>x / 2 powi e\<bar>"
          by simp
        have "2 ^ 52 \<le> \<bar>r\<bar>"
        proof (cases "0 \<le> x / 2 powi e")
          case True
          with zl have "real_of_int (2 ^ 52) \<le> x / 2 powi e"
            by (simp only: abs_of_nonneg)
          then have "2 ^ 52 \<le> r"
            unfolding r_def by (rule round_half_even_ge)
          then show ?thesis by simp
        next
          case False
          then have "\<bar>x / 2 powi e\<bar> = - (x / 2 powi e)"
            by (simp only: abs_of_neg not_le)
          with zl have "x / 2 powi e \<le> real_of_int (- (2 ^ 52))"
            by (simp only: of_int_minus)
          then have "r \<le> - (2 ^ 52)"
            unfolding r_def by (rule round_half_even_le)
          then show ?thesis by simp
        qed
        then have "(2::real) ^ 52 \<le> real_of_int \<bar>r\<bar>"
          by (metis of_int_le_iff of_int_numeral of_int_power)
        moreover have "(2::real) powi 972 \<le> 2 powi e"
          using big by (intro power_int_increasing) simp_all
        ultimately have "(2::real) ^ 52 * 2 powi 972 \<le> real_of_int \<bar>r\<bar> * 2 powi e"
          by (intro mult_mono) simp_all
        moreover have "(2::real) ^ 52 * 2 powi 972 = overflow_threshold"
          by (simp add: overflow_threshold_def flip: power_add)
        ultimately show False
          using fin y by simp
      qed
      with True e_lo show ?thesis
        unfolding representable_def by (intro exI [of _ r] exI [of _ e]) simp
    next
      case False
      with rb have r53: "\<bar>r\<bar> = 2 ^ 53" by simp
      have "(2::real) powi (e + 53) = 2 ^ 53 * 2 powi e"
        by (simp add: power_int_add)
      also have "\<dots> = real_of_int \<bar>r\<bar> * 2 powi e"
        by (simp add: r53)
      also have "\<dots> < 2 powi 1024"
        using fin y by (simp add: overflow_threshold_def)
      finally have lt: "(2::real) powi (e + 53) < 2 powi 1024" .
      have "e + 53 < 1024"
      proof (rule ccontr)
        assume "\<not> e + 53 < 1024"
        then have "(2::real) powi 1024 \<le> 2 powi (e + 53)"
          by (intro power_int_increasing) simp_all
        with lt show False by simp
      qed
      then have e_hi: "e + 1 \<le> 971" by simp
      from r53 have "r = 2 ^ 53 \<or> r = - (2 ^ 53)"
        by linarith
      then obtain h :: int where h: "\<bar>h\<bar> < 2 ^ 53" and rh: "r = 2 * h"
      proof
        assume "r = 2 ^ 53"
        then show ?thesis by (intro that [of "2 ^ 52"]) simp_all
      next
        assume "r = - (2 ^ 53)"
        then show ?thesis by (intro that [of "- (2 ^ 52)"]) simp_all
      qed
      have "real_of_int r * 2 powi e = real_of_int h * 2 powi (e + 1)"
        by (simp add: rh power_int_add)
      with h e_lo e_hi show ?thesis
        unfolding representable_def
        by (intro exI [of _ h] exI [of _ "e + 1"]) simp
    qed
    with rn fin show ?thesis by simp
  qed
qed

lemma dadd_is_double: "is_double a \<Longrightarrow> is_double b \<Longrightarrow> is_double (dadd a b)"
  by (cases a; cases b) (simp_all add: rnd_is_double)

lemma dneg_is_double: "is_double a \<Longrightarrow> is_double (dneg a)"
proof (cases a)
  case (Finite x)
  assume "is_double a"
  with Finite obtain n j where "\<bar>n\<bar> < 2 ^ 53" "- 1074 \<le> j" "j \<le> 971"
    "x = real_of_int n * 2 powi j"
    by (auto simp: representable_def)
  then have "representable (- x)"
    unfolding representable_def by (intro exI [of _ "- n"] exI [of _ j]) simp
  with Finite show ?thesis by simp
qed simp_all

lemma dsub_is_double: "is_double a \<Longrightarrow> is_double b \<Longrightarrow> is_double (dsub a b)"
  by (simp add: dsub_def dadd_is_double dneg_is_double)

lemma dmul_is_double: "is_double (dmul a b)"
  by (cases a; cases b) (simp_all add: rnd_is_double)

subsection \<open>What a history entry leaves alone\<close>

lemma add_history_balance [simp]:
  "balance (account_add_history a t d x m q) = balance (m q)"
  by (simp add: account_add_history_def Let_def split: option.splits)

lemma add_history_investment [simp]:
  "investment_balance (account_add_history a t d x m q) = investment_balance (m q)"
  by (simp add: account_add_history_def Let_def split: option.splits)

lemma add_history_daily_total [simp]:
  "daily_total (account_add_history a t d x m q) = daily_total (m q)"
  by (simp add: account_add_history_def Let_def split: option.splits)

lemma add_history_items [simp]:
  "items (account_add_history a t d x m q) = items (m q)"
  by (simp add: account_add_history_def Let_def split: option.splits)

lemma add_history_item_count [simp]:
  "item_count (account_add_history a t d x m q) = item_count (m q)"
  by (simp add: account_add_history_def Let_def split: option.splits)

lemma add_history_owner [simp]:
  "owner (account_add_history a t d x m q) = owner (m q)"
  by (simp add: account_add_history_def Let_def split: option.splits)

lemma add_history_count_bound [simp]:
  "history_count (account_add_history a t d x m q) \<le> MAX_TRANSACTION_HISTORY \<longleftrightarrow>
   history_count (m q) \<le> MAX_TRANSACTION_HISTORY"
  by (auto simp: account_add_history_def Let_def split: option.splits)

subsection \<open>The sample data, evaluated\<close>

lemma demo_service_eq:
  "demo_service =
     Some \<lparr>service_name = ''Guild Treasurer'', deposit_fee = Finite (1/4),
           withdrawal_fee = Finite (1/2),
           transfer_fee = Finite (3602879701896397 / 36028797018963968),
           investment_rate = Finite (3602879701896397 / 72057594037927936),
           daily_limit = Finite 15000\<rparr>"
  by (simp add: demo_service_def service_init_def blank_service_def snprintf_s_def
      MAX_SERVICE_NAME_def rnd_values)

lemma hero_fields:
  "balance (hero_memory 0) = Finite 500"
  "investment_balance (hero_memory 0) = Finite 0"
  "daily_total (hero_memory 0) = Finite 0"
  "item_count (hero_memory 0) = 0"
  "history_count (hero_memory 0) = 0"
  by (simp_all add: hero_memory_def account_reset_def)

lemma blank_service_fields:
  "deposit_fee blank_service = Finite 0" "withdrawal_fee blank_service = Finite 0"
  "transfer_fee blank_service = Finite 0" "investment_rate blank_service = Finite 0"
  "daily_limit blank_service = Finite 0"
  by (simp_all add: blank_service_def)

lemma twin_fields:
  "balance (twin_memory 0) = Finite 9007199254740992"
  "balance (twin_memory 1) = Finite 9007199254740992"
  "daily_total (twin_memory 0) = Finite 0"
  by (simp_all add: twin_memory_def account_reset_def)

lemma other_fields:
  "balance (hero_memory 1) = Finite 0"
  "daily_total (hero_memory 1) = Finite 0"
  by (simp_all add: hero_memory_def account_reset_def blank_memory_def blank_account_def)

lemma find_loop_None:
  "account_find_item_loop its n str i = None \<longleftrightarrow>
   (\<forall>j. i \<le> j \<and> j < n \<longrightarrow> item_name (its j) \<noteq> str)"
proof (induction its n str i rule: account_find_item_loop.induct)
  case (1 its n str i)
  show ?case
  proof (cases "i < n \<and> item_name (its i) \<noteq> str")
    case True
    then have "account_find_item_loop its n str i = account_find_item_loop its n str (Suc i)"
      by (simp add: account_find_item_loop.simps [of its n str i])
    moreover have "(\<forall>j. Suc i \<le> j \<and> j < n \<longrightarrow> item_name (its j) \<noteq> str) \<longleftrightarrow>
        (\<forall>j. i \<le> j \<and> j < n \<longrightarrow> item_name (its j) \<noteq> str)"
      using True by (metis Suc_leD Suc_leI le_neq_implies_less)
    ultimately show ?thesis using 1 True by simp
  next
    case False
    then show ?thesis
      by (auto simp: account_find_item_loop.simps [of its n str i])
  qed
qed

lemma relic_not_in_hero:
  "account_find_item (Some 0) (Some ''Ancient Relic'') hero_memory = None"
  by (simp add: account_find_item_def find_loop_None hero_fields)

lemma relic_not_in_full_vault:
  "account_find_item (Some 0) (Some ''Ancient Relic'') full_vault = None"
  by (simp add: account_find_item_def find_loop_None full_vault_def)

lemma full_vault_count: "item_count (full_vault 0) = 32"
  by (simp add: full_vault_def)

subsection \<open>Failed calls\<close>

lemma deposit_failure_unchanged:
  "fst (service_deposit s a x t m) \<noteq> None \<Longrightarrow> snd (service_deposit s a x t m) = m"
  by (auto simp: service_deposit_def Let_def split: option.splits if_splits)

lemma withdraw_failure_unchanged:
  "fst (service_withdraw s a x t m) \<noteq> None \<Longrightarrow> snd (service_withdraw s a x t m) = m"
  by (auto simp: service_withdraw_def Let_def split: option.splits if_splits)

lemma transfer_failure_unchanged:
  "fst (service_transfer s a b x t t' m) \<noteq> None \<Longrightarrow>
   snd (service_transfer s a b x t t' m) = m"
  by (auto simp: service_transfer_def Let_def split: option.splits if_splits)

lemma invest_failure_unchanged:
  "fst (service_invest s a x t m) \<noteq> None \<Longrightarrow> snd (service_invest s a x t m) = m"
  by (auto simp: service_invest_def Let_def split: option.splits if_splits)

lemma withdraw_investment_failure_unchanged:
  "fst (service_withdraw_investment s a x t m) \<noteq> None \<Longrightarrow>
   snd (service_withdraw_investment s a x t m) = m"
  by (auto simp: service_withdraw_investment_def Let_def split: option.splits if_splits)

text \<open>
  The store is the one operation that writes (the new slot) before its last check. The
  slot it has just made holds the quantity 0 and the quantity asked for is at most 999 by
  then, so that check cannot fail on a new slot; on an old slot nothing was written.
\<close>

lemma store_item_failure_unchanged:
  "fst (service_store_item a n q t m) \<noteq> None \<Longrightarrow> snd (service_store_item a n q t m) = m"
  by (auto simp: service_store_item_def Let_def
      split: option.splits sum.splits prod.splits if_splits)

lemma retrieve_item_failure_unchanged:
  "fst (service_retrieve_item a n q t m) \<noteq> None \<Longrightarrow>
   snd (service_retrieve_item a n q t m) = m"
  by (auto simp: service_retrieve_item_def Let_def
      split: option.splits sum.splits prod.splits if_splits)

lemma store_item_vault_full:
  assumes "account_find_item (Some p) (Some str) m = None"
    and "MAX_ITEMS \<le> item_count (m p)"
    and "quantity \<noteq> 0" and "quantity \<le> BANK_MAX_ITEM_QUANTITY"
  shows "service_store_item (Some p) (Some str) quantity now m = (Some VaultFull, m)"
  using assms by (simp add: service_store_item_def not_less)

text \<open>
  C3. A call of a fallible operation (deposit, withdraw, transfer, invest, withdraw
  investment, store item, retrieve item) that returns failure leaves the whole memory as
  it was: every account, and in it the balance, the investment balance, the daily total,
  the items, the item count and the history. In particular the store of a new name into an
  account that holds 32 items fails with "storage vault is full" and changes nothing, and
  the slot allocation of the store is never visible after a failed call.
\<close>

theorem failed_call_changes_nothing:
  "(fst (service_deposit service account amount now m) \<noteq> None \<longrightarrow>
      snd (service_deposit service account amount now m) = m) \<and>
   (fst (service_withdraw service account amount now m) \<noteq> None \<longrightarrow>
      snd (service_withdraw service account amount now m) = m) \<and>
   (fst (service_transfer service account to amount now now' m) \<noteq> None \<longrightarrow>
      snd (service_transfer service account to amount now now' m) = m) \<and>
   (fst (service_invest service account amount now m) \<noteq> None \<longrightarrow>
      snd (service_invest service account amount now m) = m) \<and>
   (fst (service_withdraw_investment service account amount now m) \<noteq> None \<longrightarrow>
      snd (service_withdraw_investment service account amount now m) = m) \<and>
   (fst (service_store_item account name quantity now m) \<noteq> None \<longrightarrow>
      snd (service_store_item account name quantity now m) = m) \<and>
   (fst (service_retrieve_item account name quantity now m) \<noteq> None \<longrightarrow>
      snd (service_retrieve_item account name quantity now m) = m) \<and>
   (account_find_item (Some p) (Some str) m = None \<and> item_count (m p) = MAX_ITEMS \<and>
    quantity \<noteq> 0 \<and> quantity \<le> BANK_MAX_ITEM_QUANTITY \<longrightarrow>
      service_store_item (Some p) (Some str) quantity now m = (Some VaultFull, m))"
  by (intro conjI impI)
    (simp_all add: deposit_failure_unchanged withdraw_failure_unchanged
      transfer_failure_unchanged invest_failure_unchanged
      withdraw_investment_failure_unchanged store_item_failure_unchanged
      retrieve_item_failure_unchanged store_item_vault_full)

text \<open>
  The hero (balance 500, nothing invested, nothing stored) at the demonstration service:
  a deposit below the minimum, a withdrawal and a transfer beyond the balance, an
  investment of 0, an investment withdrawal with nothing invested, a store of 1000 pieces
  and a retrieval of an item that is not there all fail and change nothing; so does the
  store of a 33rd name into the full vault.
\<close>

theorem failed_call_changes_nothing_witness:
  "service_deposit demo_service (Some 0) (Finite (1/2)) 7 hero_memory
     = (Some BelowMinimum, hero_memory) \<and>
   service_withdraw demo_service (Some 0) (Finite 600) 7 hero_memory
     = (Some InsufficientBalance, hero_memory) \<and>
   service_transfer demo_service (Some 0) (Some 1) (Finite 600) 7 8 hero_memory
     = (Some TransferInsufficient, hero_memory) \<and>
   service_invest demo_service (Some 0) (Finite 0) 7 hero_memory
     = (Some InvestNotPositive, hero_memory) \<and>
   service_withdraw_investment demo_service (Some 0) (Finite 1) 7 hero_memory
     = (Some WithdrawInvestmentInsufficient, hero_memory) \<and>
   service_store_item (Some 0) (Some ''Ancient Relic'') 1000 7 hero_memory
     = (Some QuantityExceedsLimit, hero_memory) \<and>
   service_retrieve_item (Some 0) (Some ''Ancient Relic'') 1 7 hero_memory
     = (Some ItemNotFound, hero_memory) \<and>
   item_count (full_vault 0) = MAX_ITEMS \<and>
   service_store_item (Some 0) (Some ''Ancient Relic'') 2 7 full_vault
     = (Some VaultFull, full_vault)"
proof -
  have dep: "fst (service_deposit demo_service (Some 0) (Finite (1/2)) 7 hero_memory)
      = Some BelowMinimum"
    by (simp add: demo_service_eq service_deposit_def enforce_amount_def
        BANK_MIN_TRANSACTION_def)
  have wd: "fst (service_withdraw demo_service (Some 0) (Finite 600) 7 hero_memory)
      = Some InsufficientBalance"
    by (simp add: demo_service_eq service_withdraw_def enforce_amount_def enforce_daily_def
        apply_fee_def hero_fields BANK_MIN_TRANSACTION_def BANK_MAX_TRANSACTION_def
        dgt_def dsub_def)
  have tr: "fst (service_transfer demo_service (Some 0) (Some 1) (Finite 600) 7 8 hero_memory)
      = Some TransferInsufficient"
    by (simp add: demo_service_eq service_transfer_def enforce_amount_def enforce_daily_def
        hero_fields BANK_MIN_TRANSACTION_def BANK_MAX_TRANSACTION_def dgt_def)
  have inv: "fst (service_invest demo_service (Some 0) (Finite 0) 7 hero_memory)
      = Some InvestNotPositive"
    by (simp add: demo_service_eq service_invest_def)
  have wi: "fst (service_withdraw_investment demo_service (Some 0) (Finite 1) 7 hero_memory)
      = Some WithdrawInvestmentInsufficient"
    by (simp add: service_withdraw_investment_def hero_fields)
  have st: "fst (service_store_item (Some 0) (Some ''Ancient Relic'') 1000 7 hero_memory)
      = Some QuantityExceedsLimit"
    by (simp add: service_store_item_def BANK_MAX_ITEM_QUANTITY_def)
  have re: "fst (service_retrieve_item (Some 0) (Some ''Ancient Relic'') 1 7 hero_memory)
      = Some ItemNotFound"
    by (simp add: service_retrieve_item_def relic_not_in_hero)
  have q: "(2 :: size_t) \<noteq> 0 \<and> (2 :: size_t) \<le> BANK_MAX_ITEM_QUANTITY"
    by (simp add: BANK_MAX_ITEM_QUANTITY_def)
  have full: "item_count (full_vault 0) = MAX_ITEMS"
    by (simp add: full_vault_count MAX_ITEMS_def)
  note hero = failed_call_changes_nothing [where m = hero_memory and account = "Some 0"
      and service = demo_service and now = 7 and now' = 8 and name = "Some ''Ancient Relic''"
      and p = 0 and str = "''Ancient Relic''"]
  show ?thesis
    using dep hero [where amount = "Finite (1/2)" and quantity = 1 and to = None]
      wd tr hero [where amount = "Finite 600" and quantity = 1000 and to = "Some 1"]
      inv hero [where amount = "Finite 0" and quantity = 1 and to = None]
      wi re hero [where amount = "Finite 1" and quantity = 1 and to = None]
      st q full relic_not_in_full_vault
      failed_call_changes_nothing [where m = full_vault and p = 0
        and str = "''Ancient Relic''" and quantity = 2 and now = 7]
    by (simp add: prod_eq_iff)
qed

subsection \<open>Storing a new item\<close>

lemma store_new_item:
  assumes "account_find_item (Some p) (Some str) m = None"
    and "quantity \<noteq> 0" and "quantity \<le> BANK_MAX_ITEM_QUANTITY"
    and "item_count (m p) < MAX_ITEMS"
  shows "fst (service_store_item (Some p) (Some str) quantity now m) = None"
    and "item_count (snd (service_store_item (Some p) (Some str) quantity now m) p)
           = item_count (m p) + 1"
    and "items (snd (service_store_item (Some p) (Some str) quantity now m) p) (item_count (m p))
           = \<lparr>item_name = snprintf_s MAX_ITEM_NAME str, item_quantity = quantity\<rparr>"
  using assms by (simp_all add: service_store_item_def Let_def not_less)

lemma store_new_item_never_total_limit:
  "account_find_item (Some p) (Some str) m = None \<Longrightarrow>
   fst (service_store_item (Some p) (Some str) quantity now m) \<noteq> Some TotalQuantityExceedsLimit"
  by (auto simp: service_store_item_def Let_def
      split: option.splits sum.splits prod.splits if_splits)

text \<open>
  C4, as stated, asks for an account, a name that is not among its items and a quantity
  for which the store fails at the total-quantity check and leaves \<open>item_count\<close>
  incremented. There is none: no store of a new name fails at that check, and no failed
  store changes \<open>item_count\<close>.
\<close>

theorem failed_new_store_slot_leak_counterexample:
  "\<not> (\<exists>m p str quantity now.
         account_find_item (Some p) (Some str) m = None \<and>
         fst (service_store_item (Some p) (Some str) quantity now m)
           = Some TotalQuantityExceedsLimit) \<and>
   \<not> (\<exists>m p name quantity now.
         fst (service_store_item (Some p) name quantity now m) \<noteq> None \<and>
         item_count (snd (service_store_item (Some p) name quantity now m) p)
           = item_count (m p) + 1)"
proof (intro conjI notI)
  assume "\<exists>m p str quantity now.
         account_find_item (Some p) (Some str) m = None \<and>
         fst (service_store_item (Some p) (Some str) quantity now m)
           = Some TotalQuantityExceedsLimit"
  then show False
    using store_new_item_never_total_limit by blast
next
  assume "\<exists>m p name quantity now.
         fst (service_store_item (Some p) name quantity now m) \<noteq> None \<and>
         item_count (snd (service_store_item (Some p) name quantity now m) p)
           = item_count (m p) + 1"
  then obtain m p name quantity now
    where f: "fst (service_store_item (Some p) name quantity now m) \<noteq> None"
      and c: "item_count (snd (service_store_item (Some p) name quantity now m) p)
           = item_count (m p) + 1"
    by blast
  from f have "snd (service_store_item (Some p) name quantity now m) = m"
    by (rule store_item_failure_unchanged)
  with c show False by simp
qed

text \<open>
  C4, amended. The store of a name that is not among the account's items, with a quantity
  from 1 to 999 and fewer than 32 items held, makes the new slot and then passes the
  total-quantity check (0 plus the quantity is at most 999): the call succeeds,
  \<open>item_count\<close> grows by one and the new slot holds the name (cut to 47 characters) and
  the quantity. No store of a new name fails at the total-quantity check.
\<close>

theorem store_new_item_succeeds:
  assumes "account_find_item (Some p) (Some str) m = None"
    and "quantity \<noteq> 0" and "quantity \<le> BANK_MAX_ITEM_QUANTITY"
    and "item_count (m p) < MAX_ITEMS"
  shows "fst (service_store_item (Some p) (Some str) quantity now m) = None \<and>
         fst (service_store_item (Some p) (Some str) quantity now m)
           \<noteq> Some TotalQuantityExceedsLimit \<and>
         item_count (snd (service_store_item (Some p) (Some str) quantity now m) p)
           = item_count (m p) + 1 \<and>
         items (snd (service_store_item (Some p) (Some str) quantity now m) p) (item_count (m p))
           = \<lparr>item_name = snprintf_s MAX_ITEM_NAME str, item_quantity = quantity\<rparr>"
  using store_new_item [OF assms, of now] by simp

text \<open>The store of the demonstration: two Ancient Relics into the hero's empty vault.\<close>

theorem store_new_item_succeeds_witness:
  "account_find_item (Some 0) (Some ''Ancient Relic'') hero_memory = None \<and>
   (2 :: size_t) \<noteq> 0 \<and> (2 :: size_t) \<le> BANK_MAX_ITEM_QUANTITY \<and>
   item_count (hero_memory 0) < MAX_ITEMS \<and>
   fst (service_store_item (Some 0) (Some ''Ancient Relic'') 2 7 hero_memory) = None \<and>
   item_count (snd (service_store_item (Some 0) (Some ''Ancient Relic'') 2 7 hero_memory) 0) = 1 \<and>
   items (snd (service_store_item (Some 0) (Some ''Ancient Relic'') 2 7 hero_memory) 0) 0
     = \<lparr>item_name = ''Ancient Relic'', item_quantity = 2\<rparr>"
proof -
  have a: "account_find_item (Some 0) (Some ''Ancient Relic'') hero_memory = None"
    by (rule relic_not_in_hero)
  have b: "(2 :: size_t) \<noteq> 0" by simp
  have c: "(2 :: size_t) \<le> BANK_MAX_ITEM_QUANTITY" by (simp add: BANK_MAX_ITEM_QUANTITY_def)
  have d: "item_count (hero_memory 0) < MAX_ITEMS" by (simp add: hero_fields MAX_ITEMS_def)
  show ?thesis
    using a b c d store_new_item_succeeds [OF a b c d, of 7]
    by (simp add: hero_fields snprintf_s_def MAX_ITEM_NAME_def)
qed

subsection \<open>The history buffer\<close>

lemma add_history_entries_append:
  assumes "history_count (m p) < MAX_TRANSACTION_HISTORY"
  shows "history_entries (account_add_history (Some p) t d x m p) =
         history_entries (m p) @
           [\<lparr>timestamp = t, entry_description = snprintf_s 96 d, entry_amount = x,
             resulting_balance = balance (m p)\<rparr>]"
  using assms by (simp add: account_add_history_def history_entries_def Let_def)

lemma add_history_entries_full:
  assumes "history_count (m p) = MAX_TRANSACTION_HISTORY"
  shows "history_entries (account_add_history (Some p) t d x m p) =
         tl (history_entries (m p)) @
           [\<lparr>timestamp = t, entry_description = snprintf_s 96 d, entry_amount = x,
             resulting_balance = balance (m p)\<rparr>]"
proof -
  have "map ((memmove_history (history (m p)))(63 := e)) [0..<64]
      = tl (map (history (m p)) [0..<64]) @ [e]" for e
    by (rule nth_equalityI)
      (auto simp: nth_append nth_tl memmove_history_def MAX_TRANSACTION_HISTORY_def)
  then show ?thesis
    using assms
    by (simp add: account_add_history_def history_entries_def Let_def
        MAX_TRANSACTION_HISTORY_def)
qed

lemma add_history_count_full:
  "history_count (m p) = MAX_TRANSACTION_HISTORY \<Longrightarrow>
   history_count (account_add_history (Some p) t d x m p) = MAX_TRANSACTION_HISTORY"
  by (simp add: account_add_history_def Let_def)

lemma fold_add_history_bound:
  "history_count (m p) \<le> MAX_TRANSACTION_HISTORY \<Longrightarrow>
   history_count (fold (\<lambda>(t, d, x). account_add_history (Some p) t d x) es m p)
     \<le> MAX_TRANSACTION_HISTORY"
  by (induction es arbitrary: m) auto

lemma run_call_history_bound:
  assumes "history_count (m q) \<le> MAX_TRANSACTION_HISTORY"
  shows "history_count (snd (run_call c m) q) \<le> MAX_TRANSACTION_HISTORY"
proof (cases c)
  case (Deposit s a x t)
  with assms show ?thesis
    by (auto simp: service_deposit_def Let_def split: option.splits)
next
  case (Withdraw s a x t)
  with assms show ?thesis
    by (auto simp: service_withdraw_def Let_def split: option.splits)
next
  case (Transfer s a b x t t')
  with assms show ?thesis
    by (auto simp: service_transfer_def Let_def split: option.splits)
next
  case (Invest s a x t)
  with assms show ?thesis
    by (auto simp: service_invest_def Let_def split: option.splits)
next
  case (ApplyYield s a t)
  with assms show ?thesis
    by (auto simp: service_apply_investment_yield_def Let_def split: option.splits)
next
  case (WithdrawInvestment s a x t)
  with assms show ?thesis
    by (auto simp: service_withdraw_investment_def Let_def split: option.splits)
next
  case (StoreItem a n k t)
  with assms show ?thesis
    by (auto simp: service_store_item_def Let_def
        split: option.splits sum.splits prod.splits if_splits)
next
  case (RetrieveItem a n k t)
  with assms show ?thesis
    by (auto simp: service_retrieve_item_def Let_def
        split: option.splits sum.splits prod.splits if_splits)
next
  case (ResetDaily a)
  with assms show ?thesis
    by (auto simp: service_reset_daily_def split: option.splits)
qed

lemma run_calls_history_bound:
  "history_count (m q) \<le> MAX_TRANSACTION_HISTORY \<Longrightarrow>
   history_count (run_calls cs m q) \<le> MAX_TRANSACTION_HISTORY"
  by (induction cs arbitrary: m) (simp_all add: run_call_history_bound)

lemma account_reset_history_count:
  "history_count (account_reset (Some p) ow init m p) = 0"
  by (simp add: account_reset_def)

text \<open>
  C7. The history never holds more than 64 entries: an account created by
  \<open>account_reset\<close> has none, and a count of at most 64 stays at most 64 through every
  list of appends and every list of calls. An append to a history that is not full adds
  the entry at the end. An append to a full history drops exactly the oldest entry, keeps
  the others in their order and puts the new entry last, with 64 entries still held
  (entry 65 evicts entry 1).
\<close>

theorem history_bounded_fifo:
  "history_count (account_reset (Some p) owner_str initial_balance m p) = 0 \<and>
   (history_count (m p) \<le> MAX_TRANSACTION_HISTORY \<longrightarrow>
      history_count (fold (\<lambda>(t, d, x). account_add_history (Some p) t d x) es m p)
        \<le> MAX_TRANSACTION_HISTORY \<and>
      history_count (run_calls cs m p) \<le> MAX_TRANSACTION_HISTORY) \<and>
   (history_count (m p) < MAX_TRANSACTION_HISTORY \<longrightarrow>
      history_entries (account_add_history (Some p) now description amount m p) =
        history_entries (m p) @
          [\<lparr>timestamp = now, entry_description = snprintf_s 96 description,
            entry_amount = amount, resulting_balance = balance (m p)\<rparr>]) \<and>
   (history_count (m p) = MAX_TRANSACTION_HISTORY \<longrightarrow>
      history_count (account_add_history (Some p) now description amount m p)
        = MAX_TRANSACTION_HISTORY \<and>
      history_entries (account_add_history (Some p) now description amount m p) =
        tl (history_entries (m p)) @
          [\<lparr>timestamp = now, entry_description = snprintf_s 96 description,
            entry_amount = amount, resulting_balance = balance (m p)\<rparr>])"
  by (intro conjI impI)
    (simp_all add: account_reset_history_count fold_add_history_bound
      run_calls_history_bound add_history_entries_append add_history_entries_full
      add_history_count_full)

text \<open>
  The hero with a full history (entry \<open>i\<close> has the timestamp \<open>i\<close>) and a fresh hero. A
  65th entry with the timestamp 64 leaves 64 entries: the first is now the old second one
  (timestamp 1), the last is the new one. On the fresh hero the first entry is appended.
\<close>

theorem history_bounded_fifo_witness:
  "history_count (full_history 0) = MAX_TRANSACTION_HISTORY \<and>
   history_count (account_add_history (Some 0) 64 ''Deposit'' (Finite 1) full_history 0) = 64 \<and>
   history_entries (account_add_history (Some 0) 64 ''Deposit'' (Finite 1) full_history 0) =
     tl (history_entries (full_history 0)) @
       [\<lparr>timestamp = 64, entry_description = ''Deposit'', entry_amount = Finite 1,
         resulting_balance = Finite 500\<rparr>] \<and>
   map timestamp (history_entries (full_history 0)) = map int [0..<64] \<and>
   map timestamp
     (history_entries (account_add_history (Some 0) 64 ''Deposit'' (Finite 1) full_history 0))
     = map int [1..<65] \<and>
   history_count (hero_memory 0) < MAX_TRANSACTION_HISTORY \<and>
   history_entries (account_add_history (Some 0) 0 ''Deposit'' (Finite 1) hero_memory 0) =
     [\<lparr>timestamp = 0, entry_description = ''Deposit'', entry_amount = Finite 1,
       resulting_balance = Finite 500\<rparr>] \<and>
   history_count (run_calls [Deposit demo_service (Some 0) (Finite 200) 1] hero_memory 0)
     \<le> MAX_TRANSACTION_HISTORY"
proof -
  have full: "history_count (full_history 0) = MAX_TRANSACTION_HISTORY"
    by (simp add: full_history_def MAX_TRANSACTION_HISTORY_def)
  have bal: "balance (full_history 0) = Finite 500"
    by (simp add: full_history_def hero_fields)
  have old: "map timestamp (history_entries (full_history 0)) = map int [0..<64]"
    by (simp add: history_entries_def full_history_def)
  have fresh: "history_count (hero_memory 0) < MAX_TRANSACTION_HISTORY"
    by (simp add: hero_fields MAX_TRANSACTION_HISTORY_def)
  have none: "history_entries (hero_memory 0) = []"
    by (simp add: history_entries_def hero_fields)
  have shift: "map int [1..<65] = tl (map int [0..<64]) @ [64]"
    by (rule nth_equalityI) (auto simp: nth_append nth_tl)
  note inst = history_bounded_fifo [where p = 0 and description = "''Deposit''"
      and amount = "Finite 1"]
  show ?thesis
    using full bal old fresh none shift
      inst [where m = full_history and now = 64]
      inst [where m = hero_memory and now = 0
        and cs = "[Deposit demo_service (Some 0) (Finite 200) 1]"]
    by (simp add: snprintf_s_def hero_fields MAX_TRANSACTION_HISTORY_def map_tl)
qed

subsection \<open>Investments\<close>

lemma rnd_zero [simp]: "rnd 0 = Finite 0"
  by (simp add: rnd_def)

lemma tenth_positive: "\<not> dle (rnd (1/10)) (Finite 0)"
  by (simp add: rnd_values)

text \<open>\<open>100 * 0.1\<close> is computed as exactly 10: the product lies less than half a unit above it.\<close>

lemma yield_of_100: "dmul (Finite 100) (rnd (1/10)) = Finite 10"
proof -
  have "rnd (100 * (3602879701896397 / 36028797018963968)) = Finite 10"
    by (subst rnd_binade [where k = 3])
      (simp_all add: round_half_even_def Let_def overflow_threshold_def)
  then show ?thesis
    by (simp add: rnd_values)
qed

lemma yield_effect:
  "investment_balance (service_apply_investment_yield (Some s) (Some p) now m q) =
     (if q = p \<and> \<not> (dle (investment_balance (m p)) (Finite 0) \<or>
                      dle (investment_rate s) (Finite 0))
      then dadd (investment_balance (m p)) (dmul (investment_balance (m p)) (investment_rate s))
      else investment_balance (m q))"
  "balance (service_apply_investment_yield service account now m q) = balance (m q)"
  by (auto simp: service_apply_investment_yield_def Let_def split: option.splits)

lemma invest_outcome:
  "fst (service_invest (Some s) (Some p) amount now m) = None \<longleftrightarrow>
   \<not> dle amount (Finite 0) \<and> \<not> dlt (balance (m p)) amount"
  by (auto simp: service_invest_def Let_def)

lemma invest_effect:
  assumes "fst (service_invest (Some s) (Some p) amount now m) = None"
  shows "balance (snd (service_invest (Some s) (Some p) amount now m) p)
           = dsub (balance (m p)) amount"
    and "investment_balance (snd (service_invest (Some s) (Some p) amount now m) p)
           = dadd (investment_balance (m p)) amount"
    and "daily_total (snd (service_invest (Some s) (Some p) amount now m) p)
           = daily_total (m p)"
  using assms by (simp_all add: service_invest_def Let_def split: if_splits)

lemma withdraw_investment_effect:
  assumes "\<not> dle amount (Finite 0)" and "\<not> dlt (investment_balance (m p)) amount"
  shows "fst (service_withdraw_investment service (Some p) amount now m) = None"
    and "balance (snd (service_withdraw_investment service (Some p) amount now m) p)
           = dadd (balance (m p)) amount"
    and "investment_balance (snd (service_withdraw_investment service (Some p) amount now m) p)
           = dsub (investment_balance (m p)) amount"
  using assms by (simp_all add: service_withdraw_investment_def Let_def)

lemma round_trip_steps:
  assumes "balance (m p) = Finite 500" and "investment_balance (m p) = Finite 0"
    and "investment_rate s = rnd (1/10)"
    and "service_invest (Some s) (Some p) (Finite 100) t1 m = (e1, m1)"
    and "service_apply_investment_yield (Some s) (Some p) t2 m1 = m2"
    and "service_withdraw_investment (Some s) (Some p) (Finite 110) t3 m2 = (e3, m3)"
  shows "e1 = None" and "balance (m1 p) = Finite 400"
    and "investment_balance (m1 p) = Finite 100"
    and "balance (m2 p) = Finite 400" and "investment_balance (m2 p) = Finite 110"
    and "e3 = None" and "balance (m3 p) = Finite 510"
    and "investment_balance (m3 p) = Finite 0"
proof -
  have inv: "fst (service_invest (Some s) (Some p) (Finite 100) t1 m) = None"
    using assms(1) by (simp add: invest_outcome)
  with assms(4) show "e1 = None" by simp
  have m1: "m1 = snd (service_invest (Some s) (Some p) (Finite 100) t1 m)"
    using assms(4) by simp
  show b1: "balance (m1 p) = Finite 400" and i1: "investment_balance (m1 p) = Finite 100"
    using assms(1,2) by (simp_all add: m1 invest_effect [OF inv] dsub_def)
  have m2: "m2 = service_apply_investment_yield (Some s) (Some p) t2 m1"
    using assms(5) by simp
  show b2: "balance (m2 p) = Finite 400" and i2: "investment_balance (m2 p) = Finite 110"
    using b1 i1 tenth_positive
    by (simp_all add: m2 yield_effect assms(3) yield_of_100)
  have m3: "m3 = snd (service_withdraw_investment (Some s) (Some p) (Finite 110) t3 m2)"
    and e3: "e3 = fst (service_withdraw_investment (Some s) (Some p) (Finite 110) t3 m2)"
    using assms(6) by simp_all
  show "e3 = None" and "balance (m3 p) = Finite 510" and "investment_balance (m3 p) = Finite 0"
    using b2 i2 by (simp_all add: m3 e3 withdraw_investment_effect dsub_def)
qed

text \<open>
  C9. On an account with balance 500 and investment balance 0, at a service with the
  investment rate 0.1: investing 100 succeeds and leaves balance 400 and investment
  balance 100; applying the yield leaves investment balance 110 (and the balance 400);
  withdrawing 110 of the investment succeeds and leaves investment balance 0 and balance
  510. The yield is the investment balance times the rate, added to the investment balance
  unless one of the two is 0 or less, in which case nothing happens; so it is added when
  both are positive.
\<close>

theorem investment_round_trip:
  "(balance (m p) = Finite 500 \<and> investment_balance (m p) = Finite 0 \<and>
    investment_rate s = rnd (1/10) \<and>
    service_invest (Some s) (Some p) (Finite 100) t1 m = (e1, m1) \<and>
    service_apply_investment_yield (Some s) (Some p) t2 m1 = m2 \<and>
    service_withdraw_investment (Some s) (Some p) (Finite 110) t3 m2 = (e3, m3) \<longrightarrow>
      e1 = None \<and> balance (m1 p) = Finite 400 \<and> investment_balance (m1 p) = Finite 100 \<and>
      balance (m2 p) = Finite 400 \<and> investment_balance (m2 p) = Finite 110 \<and>
      e3 = None \<and> balance (m3 p) = Finite 510 \<and> investment_balance (m3 p) = Finite 0) \<and>
   investment_balance (service_apply_investment_yield (Some s) (Some p) now m p) =
     (if dle (investment_balance (m p)) (Finite 0) \<or> dle (investment_rate s) (Finite 0)
      then investment_balance (m p)
      else dadd (investment_balance (m p))
             (dmul (investment_balance (m p)) (investment_rate s))) \<and>
   (dgt (investment_balance (m p)) (Finite 0) \<and> dgt (investment_rate s) (Finite 0) \<longrightarrow>
      investment_balance (service_apply_investment_yield (Some s) (Some p) now m p) =
        dadd (investment_balance (m p)) (dmul (investment_balance (m p)) (investment_rate s)))"
proof (intro conjI impI)
  assume a: "balance (m p) = Finite 500 \<and> investment_balance (m p) = Finite 0 \<and>
    investment_rate s = rnd (1/10) \<and>
    service_invest (Some s) (Some p) (Finite 100) t1 m = (e1, m1) \<and>
    service_apply_investment_yield (Some s) (Some p) t2 m1 = m2 \<and>
    service_withdraw_investment (Some s) (Some p) (Finite 110) t3 m2 = (e3, m3)"
  then have 1: "balance (m p) = Finite 500" and 2: "investment_balance (m p) = Finite 0"
    and 3: "investment_rate s = rnd (1/10)"
    and 4: "service_invest (Some s) (Some p) (Finite 100) t1 m = (e1, m1)"
    and 5: "service_apply_investment_yield (Some s) (Some p) t2 m1 = m2"
    and 6: "service_withdraw_investment (Some s) (Some p) (Finite 110) t3 m2 = (e3, m3)"
    by simp_all
  note steps = round_trip_steps [OF 1 2 3 4 5 6]
  show "e1 = None" by (rule steps)
  show "balance (m1 p) = Finite 400" by (rule steps)
  show "investment_balance (m1 p) = Finite 100" by (rule steps)
  show "balance (m2 p) = Finite 400" by (rule steps)
  show "investment_balance (m2 p) = Finite 110" by (rule steps)
  show "e3 = None" by (rule steps)
  show "balance (m3 p) = Finite 510" by (rule steps)
  show "investment_balance (m3 p) = Finite 0" by (rule steps)
next
  show "investment_balance (service_apply_investment_yield (Some s) (Some p) now m p) =
     (if dle (investment_balance (m p)) (Finite 0) \<or> dle (investment_rate s) (Finite 0)
      then investment_balance (m p)
      else dadd (investment_balance (m p))
             (dmul (investment_balance (m p)) (investment_rate s)))"
    by (simp add: yield_effect)
next
  assume "dgt (investment_balance (m p)) (Finite 0) \<and> dgt (investment_rate s) (Finite 0)"
  then have "\<not> dle (investment_balance (m p)) (Finite 0)"
    and "\<not> dle (investment_rate s) (Finite 0)"
    by (cases "investment_balance (m p)"; cases "investment_rate s"; simp add: dgt_def)+
  then show "investment_balance (service_apply_investment_yield (Some s) (Some p) now m p) =
        dadd (investment_balance (m p)) (dmul (investment_balance (m p)) (investment_rate s))"
    by (simp add: yield_effect)
qed

text \<open>The round trip of the hero (balance 500) at a service with the rate 0.1.\<close>

theorem investment_round_trip_witness:
  "balance (hero_memory 0) = Finite 500 \<and> investment_balance (hero_memory 0) = Finite 0 \<and>
   investment_rate (blank_service\<lparr>investment_rate := rnd (1/10)\<rparr>) = rnd (1/10) \<and>
   rnd (1/10) = Finite (3602879701896397 / 36028797018963968) \<and>
   fst (service_invest (Some (blank_service\<lparr>investment_rate := rnd (1/10)\<rparr>)) (Some 0)
     (Finite 100) 7 hero_memory) = None \<and>
   balance (snd (service_invest (Some (blank_service\<lparr>investment_rate := rnd (1/10)\<rparr>)) (Some 0)
     (Finite 100) 7 hero_memory) 0) = Finite 400 \<and>
   investment_balance (service_apply_investment_yield
     (Some (blank_service\<lparr>investment_rate := rnd (1/10)\<rparr>)) (Some 0) 8
     (snd (service_invest (Some (blank_service\<lparr>investment_rate := rnd (1/10)\<rparr>)) (Some 0)
       (Finite 100) 7 hero_memory)) 0) = Finite 110 \<and>
   fst (service_withdraw_investment (Some (blank_service\<lparr>investment_rate := rnd (1/10)\<rparr>))
     (Some 0) (Finite 110) 9
     (service_apply_investment_yield (Some (blank_service\<lparr>investment_rate := rnd (1/10)\<rparr>))
       (Some 0) 8
       (snd (service_invest (Some (blank_service\<lparr>investment_rate := rnd (1/10)\<rparr>)) (Some 0)
         (Finite 100) 7 hero_memory)))) = None \<and>
   balance (snd (service_withdraw_investment
     (Some (blank_service\<lparr>investment_rate := rnd (1/10)\<rparr>)) (Some 0) (Finite 110) 9
     (service_apply_investment_yield (Some (blank_service\<lparr>investment_rate := rnd (1/10)\<rparr>))
       (Some 0) 8
       (snd (service_invest (Some (blank_service\<lparr>investment_rate := rnd (1/10)\<rparr>)) (Some 0)
         (Finite 100) 7 hero_memory)))) 0) = Finite 510 \<and>
   investment_balance (snd (service_withdraw_investment
     (Some (blank_service\<lparr>investment_rate := rnd (1/10)\<rparr>)) (Some 0) (Finite 110) 9
     (service_apply_investment_yield (Some (blank_service\<lparr>investment_rate := rnd (1/10)\<rparr>))
       (Some 0) 8
       (snd (service_invest (Some (blank_service\<lparr>investment_rate := rnd (1/10)\<rparr>)) (Some 0)
         (Finite 100) 7 hero_memory)))) 0) = Finite 0"
proof -
  let ?s = "blank_service\<lparr>investment_rate := rnd (1/10)\<rparr>"
  let ?r1 = "service_invest (Some ?s) (Some 0) (Finite 100) 7 hero_memory"
  let ?m2 = "service_apply_investment_yield (Some ?s) (Some 0) 8 (snd ?r1)"
  let ?r3 = "service_withdraw_investment (Some ?s) (Some 0) (Finite 110) 9 ?m2"
  have rate: "investment_rate ?s = rnd (1/10)" by simp
  have r1: "?r1 = (fst ?r1, snd ?r1)" and r3: "?r3 = (fst ?r3, snd ?r3)"
    by simp_all
  show ?thesis
    using hero_fields(1,2) rate rnd_values(7)
      investment_round_trip [where s = ?s and p = 0 and m = hero_memory and ?t1.0 = 7
        and ?t2.0 = 8 and ?t3.0 = 9 and ?e1.0 = "fst ?r1" and ?m1.0 = "snd ?r1" and ?m2.0 = ?m2
        and ?e3.0 = "fst ?r3" and ?m3.0 = "snd ?r3"]
    by (simp del: One_nat_def)
qed

subsection \<open>What each operation leaves alone\<close>

lemma store_item_money:
  "balance (snd (service_store_item a n q t m) r) = balance (m r) \<and>
   investment_balance (snd (service_store_item a n q t m) r) = investment_balance (m r) \<and>
   daily_total (snd (service_store_item a n q t m) r) = daily_total (m r)"
  by (auto simp: service_store_item_def Let_def
      split: option.splits sum.splits prod.splits if_splits)

lemma retrieve_item_money:
  "balance (snd (service_retrieve_item a n q t m) r) = balance (m r) \<and>
   investment_balance (snd (service_retrieve_item a n q t m) r) = investment_balance (m r) \<and>
   daily_total (snd (service_retrieve_item a n q t m) r) = daily_total (m r)"
  by (auto simp: service_retrieve_item_def Let_def
      split: option.splits sum.splits prod.splits if_splits)

lemma invest_daily_total:
  "daily_total (snd (service_invest s a x t m) q) = daily_total (m q)"
  by (auto simp: service_invest_def Let_def split: option.splits)

lemma withdraw_investment_daily_total:
  "daily_total (snd (service_withdraw_investment s a x t m) q) = daily_total (m q)"
  by (auto simp: service_withdraw_investment_def Let_def split: option.splits)

lemma yield_daily_total:
  "daily_total (service_apply_investment_yield s a t m q) = daily_total (m q)"
  by (auto simp: service_apply_investment_yield_def Let_def split: option.splits)

lemma deposit_daily_total:
  "daily_total (snd (service_deposit s account amount now m) q) =
     (if account = Some q \<and> fst (service_deposit s account amount now m) = None
      then dadd (daily_total (m q)) amount else daily_total (m q))"
  by (auto simp: service_deposit_def Let_def split: option.splits)

lemma withdraw_daily_total:
  "daily_total (snd (service_withdraw s account amount now m) q) =
     (if account = Some q \<and> fst (service_withdraw s account amount now m) = None
      then dadd (daily_total (m q)) amount else daily_total (m q))"
  by (auto simp: service_withdraw_def Let_def split: option.splits)

lemma transfer_daily_total:
  "daily_total (snd (service_transfer s from to amount now now' m) q) =
     (if from = Some q \<and> fst (service_transfer s from to amount now now' m) = None
      then dadd (daily_total (m q)) amount else daily_total (m q))"
  by (auto simp: service_transfer_def Let_def split: option.splits)

lemma reset_daily_eq:
  "service_reset_daily (Some p) m q = (if q = p then (m p)\<lparr>daily_total := Finite 0\<rparr> else m q)"
  by (simp add: service_reset_daily_def)

text \<open>
  C10. Investing, withdrawing an investment, applying the yield, storing an item and
  retrieving an item leave the daily total of every account as it was. Of the currency
  operations, a deposit and a withdrawal add the requested amount to the daily total of
  their account when they succeed, a transfer adds it to the sender's when it succeeds,
  and they touch no other daily total. \<open>service_reset_daily\<close> sets the daily total of its
  account to 0 and changes no other field of it (balance, investment balance, owner,
  items, item count, history, history count) and no other account. Storing and retrieving
  items leave every balance as it was.
\<close>

theorem frame_conditions:
  "daily_total (snd (service_invest service account amount now m) q) = daily_total (m q) \<and>
   daily_total (snd (service_withdraw_investment service account amount now m) q)
     = daily_total (m q) \<and>
   daily_total (service_apply_investment_yield service account now m q) = daily_total (m q) \<and>
   daily_total (snd (service_store_item account name quantity now m) q) = daily_total (m q) \<and>
   daily_total (snd (service_retrieve_item account name quantity now m) q) = daily_total (m q) \<and>
   daily_total (snd (service_deposit service account amount now m) q) =
     (if account = Some q \<and> fst (service_deposit service account amount now m) = None
      then dadd (daily_total (m q)) amount else daily_total (m q)) \<and>
   daily_total (snd (service_withdraw service account amount now m) q) =
     (if account = Some q \<and> fst (service_withdraw service account amount now m) = None
      then dadd (daily_total (m q)) amount else daily_total (m q)) \<and>
   daily_total (snd (service_transfer service account to amount now now' m) q) =
     (if account = Some q \<and> fst (service_transfer service account to amount now now' m) = None
      then dadd (daily_total (m q)) amount else daily_total (m q)) \<and>
   service_reset_daily (Some p) m q =
     (if q = p then (m p)\<lparr>daily_total := Finite 0\<rparr> else m q) \<and>
   daily_total (service_reset_daily (Some p) m p) = Finite 0 \<and>
   balance (service_reset_daily (Some p) m p) = balance (m p) \<and>
   investment_balance (service_reset_daily (Some p) m p) = investment_balance (m p) \<and>
   owner (service_reset_daily (Some p) m p) = owner (m p) \<and>
   items (service_reset_daily (Some p) m p) = items (m p) \<and>
   item_count (service_reset_daily (Some p) m p) = item_count (m p) \<and>
   history (service_reset_daily (Some p) m p) = history (m p) \<and>
   history_count (service_reset_daily (Some p) m p) = history_count (m p) \<and>
   balance (snd (service_store_item account name quantity now m) q) = balance (m q) \<and>
   balance (snd (service_retrieve_item account name quantity now m) q) = balance (m q)"
  by (intro conjI)
    (simp_all add: invest_daily_total withdraw_investment_daily_total yield_daily_total
      store_item_money retrieve_item_money deposit_daily_total withdraw_daily_total
      transfer_daily_total reset_daily_eq)

lemma hero_deposit_200:
  "fst (service_deposit demo_service (Some 0) (Finite 200) 7 hero_memory) = None"
  "balance (snd (service_deposit demo_service (Some 0) (Finite 200) 7 hero_memory) 0)
     = Finite (2799 / 4)"
  by (simp_all add: demo_service_eq service_deposit_def enforce_amount_def enforce_daily_def
      apply_fee_def hero_fields BANK_MIN_TRANSACTION_def BANK_MAX_TRANSACTION_def
      dgt_def dsub_def Let_def)

text \<open>
  The first steps of the demonstration: after the hero's deposit of 200 (fee 0.25) the
  balance is 699.75 and the daily total 200. Each of these calls, made next, leaves the
  daily total at 200: investing 100, applying the yield, storing two relics, asking for two
  relics (which are not there). The two item calls leave the balance at 699.75, and the
  daily reset brings the daily total to 0 with the balance as it was.
\<close>

theorem frame_conditions_witness:
  "fst (service_deposit demo_service (Some 0) (Finite 200) 7 hero_memory) = None \<and>
   daily_total (snd (service_deposit demo_service (Some 0) (Finite 200) 7 hero_memory) 0)
     = Finite 200 \<and>
   balance (snd (service_deposit demo_service (Some 0) (Finite 200) 7 hero_memory) 0)
     = Finite (2799 / 4) \<and>
   daily_total (snd (service_invest demo_service (Some 0) (Finite 100) 8
     (snd (service_deposit demo_service (Some 0) (Finite 200) 7 hero_memory))) 0)
     = Finite 200 \<and>
   daily_total (service_apply_investment_yield demo_service (Some 0) 8
     (snd (service_deposit demo_service (Some 0) (Finite 200) 7 hero_memory)) 0)
     = Finite 200 \<and>
   daily_total (snd (service_store_item (Some 0) (Some ''Ancient Relic'') 2 8
     (snd (service_deposit demo_service (Some 0) (Finite 200) 7 hero_memory))) 0)
     = Finite 200 \<and>
   balance (snd (service_store_item (Some 0) (Some ''Ancient Relic'') 2 8
     (snd (service_deposit demo_service (Some 0) (Finite 200) 7 hero_memory))) 0)
     = Finite (2799 / 4) \<and>
   daily_total (snd (service_retrieve_item (Some 0) (Some ''Ancient Relic'') 2 8
     (snd (service_deposit demo_service (Some 0) (Finite 200) 7 hero_memory))) 0)
     = Finite 200 \<and>
   balance (snd (service_retrieve_item (Some 0) (Some ''Ancient Relic'') 2 8
     (snd (service_deposit demo_service (Some 0) (Finite 200) 7 hero_memory))) 0)
     = Finite (2799 / 4) \<and>
   daily_total (service_reset_daily (Some 0)
     (snd (service_deposit demo_service (Some 0) (Finite 200) 7 hero_memory)) 0) = Finite 0 \<and>
   balance (service_reset_daily (Some 0)
     (snd (service_deposit demo_service (Some 0) (Finite 200) 7 hero_memory)) 0)
     = Finite (2799 / 4)"
proof -
  let ?m1 = "snd (service_deposit demo_service (Some 0) (Finite 200) 7 hero_memory)"
  show ?thesis
    using hero_deposit_200
      frame_conditions [where service = demo_service and account = "Some 0"
        and amount = "Finite 200" and now = 7 and m = hero_memory and q = 0]
      frame_conditions [where service = demo_service and account = "Some 0"
        and amount = "Finite 100" and now = 8 and m = ?m1 and q = 0 and p = 0
        and name = "Some ''Ancient Relic''" and quantity = 2]
    by (simp add: hero_fields)
qed

subsection \<open>Solvency\<close>

text \<open>Sums, differences and products that cannot go below zero.\<close>

lemma dge_zero_cases:
  "dge a (Finite 0) \<longleftrightarrow> a = PInf \<or> (\<exists>x. a = Finite x \<and> 0 \<le> x)"
  by (cases a) (simp_all add: dge_def)

lemma rnd_dge_zero: "0 \<le> x \<Longrightarrow> dge (rnd x) (Finite 0)"
  using rnd_nonneg [of x] by (auto simp: dge_zero_cases)

lemma dadd_dge_zero:
  assumes "dge a (Finite 0)" and "dge b (Finite 0)"
  shows "dge (dadd a b) (Finite 0)"
proof (cases a)
  case a: (Finite x)
  show ?thesis
  proof (cases b)
    case (Finite y)
    with assms a have "0 \<le> x + y" by (simp add: dge_def)
    then show ?thesis
      using a Finite by (simp add: rnd_dge_zero)
  qed (use assms a in \<open>simp_all add: dge_def\<close>)
qed (use assms in \<open>cases b; simp add: dge_def\<close>)+

lemma dsub_dge_zero:
  assumes "dge a (Finite 0)" and "\<not> dlt a b" and "is_finite b"
  shows "dge (dsub a b) (Finite 0)"
proof -
  obtain y where b: "b = Finite y"
    using assms(3) by (cases b) simp_all
  show ?thesis
  proof (cases a)
    case (Finite x)
    with assms(2) b have "0 \<le> x - y" by simp
    then show ?thesis
      using Finite b by (simp add: dsub_def rnd_dge_zero)
  qed (use assms(1) b in \<open>simp_all add: dsub_def dge_def\<close>)
qed

lemma dmul_dge_zero:
  assumes "dge a (Finite 0)" and "\<not> dle a (Finite 0)"
    and "b \<noteq> NaN" and "\<not> dle b (Finite 0)"
  shows "dge (dmul a b) (Finite 0)"
proof (cases a)
  case a: (Finite x)
  show ?thesis
  proof (cases b)
    case (Finite y)
    with assms a have "0 \<le> x * y" by (simp add: dge_def)
    then show ?thesis
      using a Finite by (simp add: rnd_dge_zero)
  qed (use assms a in \<open>simp_all add: dge_def\<close>)
qed (use assms in \<open>cases b; simp add: dge_def\<close>)+

text \<open>An amount that passed \<open>after_fee < 1.0\<close> and is not NaN is at least 1.\<close>

lemma not_below_one:
  "\<not> dlt a (Finite 1) \<Longrightarrow> a \<noteq> NaN \<Longrightarrow> dge a (Finite 0)"
  by (cases a) (simp_all add: dge_def)

lemma rnd_PInf:
  assumes "rnd x = PInf"
  shows "2 ^ 1023 \<le> x"
proof (rule ccontr)
  assume "\<not> 2 ^ 1023 \<le> x"
  then have small: "x < 2 ^ 1023" by simp
  from assms have x0: "x \<noteq> 0" and pos: "0 < x"
    by (auto simp: rnd_def Let_def split: if_splits)
  let ?e = "ulp_exponent x"
  let ?y = "real_of_int (round_half_even (x / 2 powi ?e)) * 2 powi ?e"
  have over: "overflow_threshold \<le> \<bar>?y\<bar>"
    using assms x0 by (simp add: rnd_def Let_def split: if_splits)
  have "\<bar>x\<bar> < 2 powi (970 + 53)"
    using small pos by simp
  then have e: "?e \<le> 970"
    using x0 by (intro ulp_exponent_le) simp_all
  have "?y - x = (real_of_int (round_half_even (x / 2 powi ?e)) - x / 2 powi ?e) * 2 powi ?e"
    by (simp add: algebra_simps)
  then have "\<bar>?y - x\<bar> = \<bar>real_of_int (round_half_even (x / 2 powi ?e)) - x / 2 powi ?e\<bar>
      * 2 powi ?e"
    by (simp add: abs_mult)
  also have "\<dots> \<le> 1/2 * 2 powi ?e"
    by (intro mult_right_mono round_half_even_error) simp
  also have "\<dots> \<le> 1/2 * 2 powi 970"
    using e by (intro mult_left_mono power_int_increasing) simp_all
  finally have "\<bar>?y\<bar> < 2 ^ 1023 + 1/2 * 2 powi 970"
    using small pos by linarith
  also have "\<dots> < overflow_threshold"
    by (simp add: overflow_threshold_def)
  finally show False
    using over by simp
qed

text \<open>The amount that \<open>apply_fee\<close> leaves behind, for a finite amount and a fee other than NaN.\<close>

lemma apply_fee_finite:
  assumes "enforce_amount (Finite a) = None" and "fee \<noteq> NaN"
    and "apply_fee s (Finite a) fee = Some y"
  shows "is_finite y \<and> dge y (Finite 0)"
proof (cases "dle fee (Finite 0)")
  case True
  with assms show ?thesis
    by (auto simp: apply_fee_def enforce_amount_def BANK_MIN_TRANSACTION_def dge_def
        split: option.splits if_splits)
next
  case False
  with assms(3) have y: "y = dsub (Finite a) fee" and ok: "\<not> dlt y (Finite 1)"
    by (auto simp: apply_fee_def BANK_MIN_TRANSACTION_def Let_def
        split: option.splits if_splits)
  from assms(1) have a: "a \<le> 10000"
    by (auto simp: enforce_amount_def BANK_MAX_TRANSACTION_def dgt_def split: if_splits)
  show ?thesis
  proof (cases fee)
    case (Finite f)
    with False have f: "0 < f" by simp
    have "rnd (a - f) \<noteq> PInf"
    proof
      assume "rnd (a - f) = PInf"
      then have "2 ^ 1023 \<le> a - f" by (rule rnd_PInf)
      moreover have "(10000::real) < 2 ^ 1023" by simp
      ultimately show False using a f by linarith
    qed
    with ok y Finite show ?thesis
      by (cases "rnd (a - f)") (simp_all add: dsub_def dge_def)
  qed (use assms(2) False ok y in \<open>simp_all add: dsub_def\<close>)
qed

lemma deposit_solvent:
  assumes "solvent (m q)" and "nan_free s" and "is_finite x"
  shows "solvent (snd (service_deposit s a x t m) q)"
proof -
  obtain v where x: "x = Finite v"
    using assms(3) by (cases x) simp_all
  show ?thesis
    using assms(1,2) apply_fee_finite [of v]
    by (auto simp: service_deposit_def solvent_def Let_def nan_free_def x
        intro!: dadd_dge_zero split: option.splits)
qed

lemma withdraw_solvent:
  assumes "solvent (m q)" and "nan_free s" and "is_finite x"
  shows "solvent (snd (service_withdraw s a x t m) q)"
proof -
  obtain v where x: "x = Finite v"
    using assms(3) by (cases x) simp_all
  show ?thesis
    using assms(1,2) apply_fee_finite [of v]
    by (auto simp: service_withdraw_def solvent_def Let_def nan_free_def x
        intro!: dsub_dge_zero split: option.splits)
qed

lemma transfer_credit:
  assumes "enforce_amount (Finite v) = None" and "fee \<noteq> NaN"
    and "\<not> (dgt fee (Finite 0) \<and> dlt (dsub (Finite v) fee) BANK_MIN_TRANSACTION)"
  shows "dge (if dgt fee (Finite 0) then dsub (Finite v) fee else Finite v) (Finite 0)"
proof (cases "dgt fee (Finite 0)")
  case True
  with assms(3) have "\<not> dlt (dsub (Finite v) fee) (Finite 1)"
    by (simp add: BANK_MIN_TRANSACTION_def)
  moreover have "dsub (Finite v) fee \<noteq> NaN"
    using assms(2) by (cases fee) (simp_all add: dsub_def)
  ultimately show ?thesis
    using True by (simp add: not_below_one)
next
  case False
  with assms(1) show ?thesis
    by (auto simp: enforce_amount_def BANK_MIN_TRANSACTION_def dge_def split: if_splits)
qed

lemma transfer_outcome:
  "service_transfer (Some s) (Some f) (Some t) amount now now' m =
     (if enforce_amount amount \<noteq> None then (enforce_amount amount, m)
      else if enforce_daily (Some s) (Some f) amount m \<noteq> None
      then (enforce_daily (Some s) (Some f) amount m, m)
      else if dlt (balance (m f)) amount then (Some TransferInsufficient, m)
      else if dgt (transfer_fee s) (Finite 0) \<and>
              dlt (dsub amount (transfer_fee s)) BANK_MIN_TRANSACTION
      then (Some TransferTooSmallAfterFee, m)
      else (None, snd (service_transfer (Some s) (Some f) (Some t) amount now now' m)))"
  by (auto simp: service_transfer_def Let_def split: option.splits)

lemma transfer_success_effect:
  assumes "fst (service_transfer (Some s) (Some f) (Some t) amount now now' m) = None"
  shows "balance (snd (service_transfer (Some s) (Some f) (Some t) amount now now' m) q) =
           (if q = t
            then dadd (if t = f then dsub (balance (m f)) amount else balance (m t))
                   (if dgt (transfer_fee s) (Finite 0) then dsub amount (transfer_fee s)
                    else amount)
            else if q = f then dsub (balance (m f)) amount
            else balance (m q))"
    and "investment_balance
           (snd (service_transfer (Some s) (Some f) (Some t) amount now now' m) q)
           = investment_balance (m q)"
  using assms
  by (auto simp: service_transfer_def Let_def split: option.splits if_splits)

lemma transfer_solvent:
  assumes "solvent (m q)" and "nan_free s" and "is_finite x"
  shows "solvent (snd (service_transfer s a b x t t' m) q)"
proof (cases "fst (service_transfer s a b x t t' m) = None")
  case False
  then have "snd (service_transfer s a b x t t' m) = m"
    by (auto simp: service_transfer_def Let_def split: option.splits if_splits)
  with assms(1) show ?thesis by simp
next
  case True
  then obtain sv f r where s: "s = Some sv" and a: "a = Some f" and b: "b = Some r"
    by (auto simp: service_transfer_def split: option.splits)
  obtain v where x: "x = Finite v"
    using assms(3) by (cases x) simp_all
  let ?fee = "transfer_fee sv"
  let ?credited = "if dgt ?fee (Finite 0) then dsub (Finite v) ?fee else Finite v"
  from True have gates: "enforce_amount (Finite v) = None" "\<not> dlt (balance (m f)) (Finite v)"
      "\<not> (dgt ?fee (Finite 0) \<and> dlt (dsub (Finite v) ?fee) BANK_MIN_TRANSACTION)"
    unfolding s a b x by (subst (asm) transfer_outcome, simp split: if_splits)+
  have fee: "?fee \<noteq> NaN"
    using assms(2) by (simp add: nan_free_def s)
  have credited: "dge ?credited (Finite 0)"
    using gates(1) fee gates(3) by (rule transfer_credit)
  have debit: "q = f \<Longrightarrow> dge (dsub (balance (m f)) (Finite v)) (Finite 0)"
    using assms(1) gates(2) by (intro dsub_dge_zero) (simp_all add: solvent_def)
  note eff = transfer_success_effect [OF True [unfolded s a b x], of q]
  have "dge (balance (snd (service_transfer s a b x t t' m) q)) (Finite 0)"
    unfolding s a b x eff(1)
    using assms(1) credited debit
    by (auto simp: solvent_def intro!: dadd_dge_zero)
  moreover have "dge (investment_balance (snd (service_transfer s a b x t t' m) q)) (Finite 0)"
    unfolding s a b x eff(2) using assms(1) by (simp add: solvent_def)
  ultimately show ?thesis by (simp add: solvent_def)
qed

lemma invest_solvent:
  assumes "solvent (m q)" and "is_finite x"
  shows "solvent (snd (service_invest s a x t m) q)"
proof -
  obtain v where x: "x = Finite v"
    using assms(2) by (cases x) simp_all
  show ?thesis
    using assms(1)
    by (auto simp: service_invest_def solvent_def Let_def x dge_def [of "Finite v"]
        intro!: dadd_dge_zero dsub_dge_zero split: option.splits)
qed

lemma yield_solvent:
  assumes "solvent (m q)" and "nan_free s"
  shows "solvent (service_apply_investment_yield s a t m q)"
  using assms
  by (auto simp: service_apply_investment_yield_def solvent_def Let_def nan_free_def
      intro!: dadd_dge_zero dmul_dge_zero split: option.splits)

lemma withdraw_investment_solvent:
  assumes "solvent (m q)" and "is_finite x"
  shows "solvent (snd (service_withdraw_investment s a x t m) q)"
proof -
  obtain v where x: "x = Finite v"
    using assms(2) by (cases x) simp_all
  show ?thesis
    using assms(1)
    by (auto simp: service_withdraw_investment_def solvent_def Let_def x
        dge_def [of "Finite v"]
        intro!: dadd_dge_zero dsub_dge_zero split: option.splits)
qed

lemma reset_daily_solvent:
  "solvent (m q) \<Longrightarrow> solvent (service_reset_daily a m q)"
  by (auto simp: service_reset_daily_def solvent_def split: option.splits)

lemma run_call_solvent:
  assumes "solvent (m q)" and "finite_call c"
  shows "solvent (snd (run_call c m) q)"
proof (cases c)
  case (StoreItem a n k t)
  with assms show ?thesis
    using store_item_money [of a n k t m q] by (simp add: solvent_def)
next
  case (RetrieveItem a n k t)
  with assms show ?thesis
    using retrieve_item_money [of a n k t m q] by (simp add: solvent_def)
qed (use assms in \<open>simp_all add: deposit_solvent withdraw_solvent transfer_solvent
      invest_solvent yield_solvent withdraw_investment_solvent reset_daily_solvent\<close>)

text \<open>
  With finite amounts, fees and rates other than NaN and an initial balance other than
  NaN, the two balances stay at or above 0 (they may reach infinity) through every list
  of calls.
\<close>

lemma finite_calls_keep_solvency:
  "solvent (m q) \<Longrightarrow> list_all finite_call cs \<Longrightarrow> solvent (run_calls cs m q)"
  by (induction cs arbitrary: m) (simp_all add: run_call_solvent)

lemma account_reset_solvent:
  "initial_balance \<noteq> NaN \<Longrightarrow>
   solvent (account_reset (Some p) owner_str initial_balance m p)"
  by (cases initial_balance) (simp_all add: account_reset_def solvent_def dge_def)

text \<open>
  C1. An account created by \<open>account_reset\<close> is to keep \<open>balance >= 0\<close> and
  \<open>investment_balance >= 0\<close> through every sequence of successful operations. The
  checks of the code keep it for finite amounts (the lemmas above) and miss NaN: every
  comparison with NaN is false, so a deposit of NaN passes the range check, the
  daily-limit check and the fee gate, returns success and leaves the balance NaN, for
  which \<open>balance >= 0\<close> is false; and \<open>account_reset\<close> with a NaN initial balance, which
  is not below 0, stores it.
\<close>

theorem nan_deposit_breaks_solvency:
  "solvent (hero_memory 0) \<and>
   enforce_amount NaN = None \<and>
   fst (service_deposit demo_service (Some 0) NaN 7 hero_memory) = None \<and>
   balance (snd (service_deposit demo_service (Some 0) NaN 7 hero_memory) 0) = NaN \<and>
   \<not> dge (balance (snd (service_deposit demo_service (Some 0) NaN 7 hero_memory) 0)) (Finite 0) \<and>
   \<not> solvent (run_calls [Deposit demo_service (Some 0) NaN 7] hero_memory 0) \<and>
   balance (account_reset (Some 0) (Some ''Hero'') NaN blank_memory 0) = NaN \<and>
   \<not> solvent (account_reset (Some 0) (Some ''Hero'') NaN blank_memory 0)"
proof -
  have ok: "fst (service_deposit demo_service (Some 0) NaN 7 hero_memory) = None"
    and bal: "balance (snd (service_deposit demo_service (Some 0) NaN 7 hero_memory) 0) = NaN"
    by (simp_all add: demo_service_eq service_deposit_def enforce_amount_def enforce_daily_def
        apply_fee_def hero_fields BANK_MIN_TRANSACTION_def BANK_MAX_TRANSACTION_def
        dgt_def dsub_def Let_def)
  have reset: "balance (account_reset (Some 0) (Some ''Hero'') NaN blank_memory 0) = NaN"
    by (simp add: account_reset_def)
  show ?thesis
    by (simp add: ok bal reset solvent_def dge_def hero_fields enforce_amount_def
        BANK_MIN_TRANSACTION_def BANK_MAX_TRANSACTION_def dgt_def)
qed

subsection \<open>Transfers\<close>

lemma representable_exact:
  "\<bar>n\<bar> < 2 ^ 53 \<Longrightarrow> - 1074 \<le> j \<Longrightarrow> j \<le> 971 \<Longrightarrow> representable (real_of_int n * 2 powi j)"
  unfolding representable_def by blast

lemma representable_numeral [simp]:
  "(numeral n :: int) < 2 ^ 53 \<Longrightarrow> representable (numeral n)"
  using representable_exact [of "numeral n" 0] by simp

lemma representable_numeral_half [simp]:
  "(numeral n :: int) < 2 ^ 53 \<Longrightarrow> representable (numeral n / 2)"
  using representable_exact [of "numeral n" "- 1"] by simp

lemma rnd_above_2_53: "rnd 9007199254740993 = Finite 9007199254740992"
  using rnd_values(1) by simp

lemma transfer_succeeds_iff:
  "fst (service_transfer (Some s) (Some f) (Some t) amount now now' m) = None \<longleftrightarrow>
   enforce_amount amount = None \<and> enforce_daily (Some s) (Some f) amount m = None \<and>
   \<not> dlt (balance (m f)) amount \<and>
   \<not> (dgt (transfer_fee s) (Finite 0) \<and>
      dlt (dsub amount (transfer_fee s)) BANK_MIN_TRANSACTION)"
  by (auto simp: service_transfer_def Let_def split: option.splits)

lemma transfer_conserves_when_exact:
  assumes ok: "service_transfer (Some s) (Some f) (Some t) amount now now' m = (None, m')"
    and ne: "f \<noteq> t"
    and vals: "balance (m f) = Finite bf" "balance (m t) = Finite bt" "amount = Finite a"
      "transfer_fee s = Finite fee"
    and exact: "representable (bf - a)" "0 < fee \<longrightarrow> representable (a - fee)"
      "representable (bt + (if 0 < fee then a - fee else a))"
  shows "balance (m' f) = Finite (bf - a)"
    and "balance (m' t) = Finite (bt + (if 0 < fee then a - fee else a))"
    and "real_of_double (balance (m' f)) + real_of_double (balance (m' t))
           = bf + bt - (if 0 < fee then fee else 0)"
proof -
  have suc: "fst (service_transfer (Some s) (Some f) (Some t) amount now now' m) = None"
    and m': "m' = snd (service_transfer (Some s) (Some f) (Some t) amount now now' m)"
    using ok by simp_all
  note eff = transfer_success_effect(1) [OF suc]
  have "balance (m' f) = dsub (balance (m f)) amount"
    using ne by (simp add: m' eff)
  then show 1: "balance (m' f) = Finite (bf - a)"
    using exact(1) by (simp add: vals dsub_def rnd_representable)
  have "balance (m' t) =
      dadd (balance (m t))
        (if dgt (transfer_fee s) (Finite 0) then dsub amount (transfer_fee s) else amount)"
    using ne by (simp add: m' eff)
  then have bt': "balance (m' t) =
      dadd (Finite bt) (if 0 < fee then dsub (Finite a) (Finite fee) else Finite a)"
    by (simp only: vals dgt_def dlt.simps)
  show 2: "balance (m' t) = Finite (bt + (if 0 < fee then a - fee else a))"
  proof (cases "0 < fee")
    case True
    with exact(2) have "rnd (a - fee) = Finite (a - fee)"
      by (simp only: rnd_representable)
    then have "dsub (Finite a) (Finite fee) = Finite (a - fee)"
      by (simp add: dsub_def)
    moreover have "rnd (bt + (a - fee)) = Finite (bt + (a - fee))"
      using exact(3) True by (simp only: rnd_representable if_True)
    ultimately show ?thesis
      using True by (simp only: bt' if_True dadd.simps)
  next
    case False
    have "rnd (bt + a) = Finite (bt + a)"
      using exact(3) False by (simp only: rnd_representable if_False)
    then show ?thesis
      using False by (simp only: bt' if_False dadd.simps)
  qed
  show "real_of_double (balance (m' f)) + real_of_double (balance (m' t))
           = bf + bt - (if 0 < fee then fee else 0)"
    by (simp add: 1 2)
qed

text \<open>
  C2, as stated, speaks of every successful transfer and of exact sums. First, \<open>from\<close>
  and \<open>to\<close> are two pointers and nothing in \<open>service_transfer\<close> keeps them apart: a
  transfer of 10 from the hero's account to the same account at a transfer fee of 0.5
  succeeds; the balance goes from 500 to 499.5, not down by the full 10, and the daily
  total of the receiver, which is the sender, goes from 0 to 10. Second, each of the two
  balances is rounded on its own: with no fee, a transfer of 1 between two distinct
  accounts that hold \<open>2 ^ 53 = 9007199254740992\<close> each succeeds, the sender goes down to
  \<open>2 ^ 53 - 1\<close>, the receiver stays at \<open>2 ^ 53\<close>, and the sum is 1 less than before.
\<close>

theorem transfer_to_self_counterexample:
  "fst (service_transfer (Some (blank_service\<lparr>transfer_fee := Finite (1/2)\<rparr>)) (Some 0) (Some 0)
     (Finite 10) 7 8 hero_memory) = None \<and>
   balance (hero_memory 0) = Finite 500 \<and>
   balance (snd (service_transfer (Some (blank_service\<lparr>transfer_fee := Finite (1/2)\<rparr>)) (Some 0)
     (Some 0) (Finite 10) 7 8 hero_memory) 0) = Finite (999 / 2) \<and>
   daily_total (hero_memory 0) = Finite 0 \<and>
   daily_total (snd (service_transfer (Some (blank_service\<lparr>transfer_fee := Finite (1/2)\<rparr>))
     (Some 0) (Some 0) (Finite 10) 7 8 hero_memory) 0) = Finite 10 \<and>
   fst (service_transfer (Some blank_service) (Some 0) (Some 1) (Finite 1) 7 8 twin_memory)
     = None \<and>
   balance (snd (service_transfer (Some blank_service) (Some 0) (Some 1) (Finite 1) 7 8
     twin_memory) 0)
     = Finite 9007199254740991 \<and>
   balance (snd (service_transfer (Some blank_service) (Some 0) (Some 1) (Finite 1) 7 8
     twin_memory) 1)
     = Finite 9007199254740992"
proof -
  let ?s = "blank_service\<lparr>transfer_fee := Finite (1/2)\<rparr>"
  have self: "fst (service_transfer (Some ?s) (Some 0) (Some 0) (Finite 10) 7 8 hero_memory)
      = None"
    by (simp add: transfer_succeeds_iff enforce_amount_def enforce_daily_def hero_fields
        blank_service_fields BANK_MIN_TRANSACTION_def BANK_MAX_TRANSACTION_def
        BANK_MAX_DAILY_TOTAL_def dgt_def dsub_def)
  have self_balance: "balance (snd (service_transfer (Some ?s) (Some 0) (Some 0) (Finite 10)
      7 8 hero_memory) 0) = Finite (999 / 2)"
    by (subst transfer_success_effect(1) [OF self])
      (simp add: hero_fields dgt_def dsub_def)
  have self_daily: "daily_total (snd (service_transfer (Some ?s) (Some 0) (Some 0) (Finite 10)
      7 8 hero_memory) 0) = Finite 10"
    by (subst transfer_daily_total) (simp add: self hero_fields)
  have pair: "fst (service_transfer (Some blank_service) (Some 0) (Some 1) (Finite 1) 7 8
      twin_memory) = None"
    by (simp add: transfer_succeeds_iff enforce_amount_def enforce_daily_def twin_fields
        blank_service_fields BANK_MIN_TRANSACTION_def BANK_MAX_TRANSACTION_def
        BANK_MAX_DAILY_TOTAL_def dgt_def)
  have sender: "balance (snd (service_transfer (Some blank_service) (Some 0) (Some 1) (Finite 1)
      7 8 twin_memory) 0) = Finite 9007199254740991"
    by (subst transfer_success_effect(1) [OF pair])
      (simp add: twin_fields blank_service_fields dgt_def dsub_def del: One_nat_def)
  have receiver: "balance (snd (service_transfer (Some blank_service) (Some 0) (Some 1)
      (Finite 1) 7 8 twin_memory) 1) = Finite 9007199254740992"
    by (subst transfer_success_effect(1) [OF pair])
      (simp add: twin_fields blank_service_fields dgt_def rnd_above_2_53 del: One_nat_def)
  show ?thesis
    by (intro conjI self self_balance self_daily pair sender receiver hero_fields)
qed

text \<open>
  C2, amended. For every successful transfer between two distinct accounts: the sender's
  balance becomes the double nearest to the balance less the full amount; the receiver's
  balance becomes the double nearest to the balance plus the credited amount, which is the
  double nearest to the amount less the fee when the transfer fee is above 0 and the
  amount itself otherwise; only the sender's daily total changes (to the double nearest
  to the daily total plus the amount). Whenever these differences and this sum are
  representable, so that no rounding takes place, the sum of the two balances goes down by
  exactly the fee when it is above 0 and is exactly conserved otherwise.
\<close>

theorem transfer_between_distinct_accounts:
  assumes "service_transfer (Some s) (Some f) (Some t) amount now now' m = (None, m')"
    and "f \<noteq> t"
  shows "balance (m' f) = dsub (balance (m f)) amount \<and>
         balance (m' t) =
           dadd (balance (m t))
             (if dgt (transfer_fee s) (Finite 0) then dsub amount (transfer_fee s)
              else amount) \<and>
         daily_total (m' f) = dadd (daily_total (m f)) amount \<and>
         daily_total (m' t) = daily_total (m t) \<and>
         (\<forall>bf bt a fee.
            balance (m f) = Finite bf \<and> balance (m t) = Finite bt \<and> amount = Finite a \<and>
            transfer_fee s = Finite fee \<and> representable (bf - a) \<and>
            (0 < fee \<longrightarrow> representable (a - fee)) \<and>
            representable (bt + (if 0 < fee then a - fee else a)) \<longrightarrow>
              balance (m' f) = Finite (bf - a) \<and>
              balance (m' t) = Finite (bt + (if 0 < fee then a - fee else a)) \<and>
              real_of_double (balance (m' f)) + real_of_double (balance (m' t))
                = bf + bt - (if 0 < fee then fee else 0))"
proof -
  have suc: "fst (service_transfer (Some s) (Some f) (Some t) amount now now' m) = None"
    and m': "m' = snd (service_transfer (Some s) (Some f) (Some t) amount now now' m)"
    using assms(1) by simp_all
  have "balance (m' f) = dsub (balance (m f)) amount"
    using assms(2) by (simp add: m' transfer_success_effect(1) [OF suc])
  moreover have "balance (m' t) =
           dadd (balance (m t))
             (if dgt (transfer_fee s) (Finite 0) then dsub amount (transfer_fee s)
              else amount)"
    using assms(2) by (simp add: m' transfer_success_effect(1) [OF suc])
  moreover have "daily_total (m' f) = dadd (daily_total (m f)) amount"
    using suc by (simp add: m' transfer_daily_total)
  moreover have "daily_total (m' t) = daily_total (m t)"
    using assms(2) by (simp add: m' transfer_daily_total)
  moreover have "\<forall>bf bt a fee.
            balance (m f) = Finite bf \<and> balance (m t) = Finite bt \<and> amount = Finite a \<and>
            transfer_fee s = Finite fee \<and> representable (bf - a) \<and>
            (0 < fee \<longrightarrow> representable (a - fee)) \<and>
            representable (bt + (if 0 < fee then a - fee else a)) \<longrightarrow>
              balance (m' f) = Finite (bf - a) \<and>
              balance (m' t) = Finite (bt + (if 0 < fee then a - fee else a)) \<and>
              real_of_double (balance (m' f)) + real_of_double (balance (m' t))
                = bf + bt - (if 0 < fee then fee else 0)"
  proof (intro allI impI, elim conjE)
    fix bf bt a fee
    assume h: "balance (m f) = Finite bf" "balance (m t) = Finite bt" "amount = Finite a"
      "transfer_fee s = Finite fee" "representable (bf - a)"
      "0 < fee \<longrightarrow> representable (a - fee)"
      "representable (bt + (if 0 < fee then a - fee else a))"
    note c = transfer_conserves_when_exact [OF assms h]
    show "balance (m' f) = Finite (bf - a) \<and>
          balance (m' t) = Finite (bt + (if 0 < fee then a - fee else a)) \<and>
          real_of_double (balance (m' f)) + real_of_double (balance (m' t))
            = bf + bt - (if 0 < fee then fee else 0)"
      using c by (intro conjI)
  qed
  ultimately show ?thesis
    by (intro conjI)
qed

text \<open>
  The hero sends 10 to the account at address 1 (balance 0) at a transfer fee of 0.5:
  490 and 9.5 afterwards, 0.5 less in total.
\<close>

theorem transfer_between_distinct_accounts_witness:
  "fst (service_transfer (Some (blank_service\<lparr>transfer_fee := Finite (1/2)\<rparr>)) (Some 0) (Some 1)
     (Finite 10) 7 8 hero_memory) = None \<and>
   (0 :: addr) \<noteq> 1 \<and>
   balance (hero_memory 0) = Finite 500 \<and> balance (hero_memory 1) = Finite 0 \<and>
   representable (500 - 10) \<and> representable (10 - 1/2) \<and> representable (0 + (10 - 1/2)) \<and>
   balance (snd (service_transfer (Some (blank_service\<lparr>transfer_fee := Finite (1/2)\<rparr>)) (Some 0)
     (Some 1) (Finite 10) 7 8 hero_memory) 0) = Finite 490 \<and>
   balance (snd (service_transfer (Some (blank_service\<lparr>transfer_fee := Finite (1/2)\<rparr>)) (Some 0)
     (Some 1) (Finite 10) 7 8 hero_memory) 1) = Finite (19 / 2) \<and>
   daily_total (snd (service_transfer (Some (blank_service\<lparr>transfer_fee := Finite (1/2)\<rparr>))
     (Some 0) (Some 1) (Finite 10) 7 8 hero_memory) 0) = Finite 10 \<and>
   daily_total (snd (service_transfer (Some (blank_service\<lparr>transfer_fee := Finite (1/2)\<rparr>))
     (Some 0) (Some 1) (Finite 10) 7 8 hero_memory) 1) = Finite 0 \<and>
   real_of_double (balance (snd (service_transfer
     (Some (blank_service\<lparr>transfer_fee := Finite (1/2)\<rparr>)) (Some 0) (Some 1) (Finite 10) 7 8
     hero_memory) 0)) +
   real_of_double (balance (snd (service_transfer
     (Some (blank_service\<lparr>transfer_fee := Finite (1/2)\<rparr>)) (Some 0) (Some 1) (Finite 10) 7 8
     hero_memory) 1)) = 500 + 0 - 1/2"
proof -
  let ?s = "blank_service\<lparr>transfer_fee := Finite (1/2)\<rparr>"
  let ?r = "service_transfer (Some ?s) (Some 0) (Some 1) (Finite 10) 7 8 hero_memory"
  have ok: "fst ?r = None"
    by (simp add: transfer_succeeds_iff enforce_amount_def enforce_daily_def hero_fields
        blank_service_fields BANK_MIN_TRANSACTION_def BANK_MAX_TRANSACTION_def
        BANK_MAX_DAILY_TOTAL_def dgt_def dsub_def)
  then have run: "?r = (None, snd ?r)"
    by (simp add: prod_eq_iff)
  have ne: "(0 :: addr) \<noteq> 1" by simp
  have rep: "representable (500 - 10)" "representable (10 - 1/2)"
    "representable (0 + (10 - 1/2))"
    by simp_all
  note inst = transfer_between_distinct_accounts [OF run ne]
  note bal0 = inst [THEN conjunct1]
  note bal1 = inst [THEN conjunct2, THEN conjunct1]
  note day0 = inst [THEN conjunct2, THEN conjunct2, THEN conjunct1]
  note day1 = inst [THEN conjunct2, THEN conjunct2, THEN conjunct2, THEN conjunct1]
  have b0: "balance (snd ?r 0) = Finite 490"
    by (simp only: bal0 hero_fields) (simp add: dsub_def)
  have b1: "balance (snd ?r 1) = Finite (19 / 2)"
    by (simp only: bal1 other_fields) (simp add: dgt_def dsub_def)
  have d0: "daily_total (snd ?r 0) = Finite 10"
    by (simp only: day0 hero_fields) simp
  have d1: "daily_total (snd ?r 1) = Finite 0"
    by (simp only: day1 other_fields)
  note exact = inst [THEN conjunct2, THEN conjunct2, THEN conjunct2, THEN conjunct2,
      rule_format, of 500 0 10 "1/2"]
  have sum: "real_of_double (balance (snd ?r 0)) + real_of_double (balance (snd ?r 1))
      = 500 + 0 - 1/2"
    using exact rep by (simp add: hero_fields other_fields del: One_nat_def)
  show ?thesis
    by (intro conjI ok ne rep b0 b1 d0 d1 sum hero_fields other_fields)
qed

subsection \<open>The daily limit\<close>

lemma enforce_daily_eq:
  "enforce_daily (Some s) (Some p) amount m =
     (if dgt (dadd (daily_total (m p)) amount)
           (if dgt (daily_limit s) (Finite 0) then daily_limit s else Finite 25000)
      then Some DailyLimitExceeded else None)"
  by (simp add: enforce_daily_def BANK_MAX_DAILY_TOTAL_def Let_def)

lemma enforce_amount_not_daily: "enforce_amount amount \<noteq> Some DailyLimitExceeded"
  by (simp add: enforce_amount_def)

lemma enforce_amount_numeral [simp]:
  "enforce_amount (Finite (numeral n)) =
     (if (numeral n :: real) > 10000 then Some AboveMaximum else None)"
  by (simp add: enforce_amount_def BANK_MIN_TRANSACTION_def BANK_MAX_TRANSACTION_def dgt_def)

lemma deposit_daily_limit:
  "fst (service_deposit (Some s) (Some p) amount now m) = Some DailyLimitExceeded \<longleftrightarrow>
   enforce_amount amount = None \<and>
   dgt (dadd (daily_total (m p)) amount)
     (if dgt (daily_limit s) (Finite 0) then daily_limit s else Finite 25000)"
  using enforce_amount_not_daily [of amount]
  by (auto simp: service_deposit_def enforce_daily_eq Let_def split: option.splits if_splits)

lemma withdraw_daily_limit:
  "fst (service_withdraw (Some s) (Some p) amount now m) = Some DailyLimitExceeded \<longleftrightarrow>
   enforce_amount amount = None \<and>
   dgt (dadd (daily_total (m p)) amount)
     (if dgt (daily_limit s) (Finite 0) then daily_limit s else Finite 25000)"
  using enforce_amount_not_daily [of amount]
  by (auto simp: service_withdraw_def enforce_daily_eq Let_def split: option.splits if_splits)

lemma transfer_daily_limit:
  "fst (service_transfer (Some s) (Some f) (Some t) amount now now' m)
     = Some DailyLimitExceeded \<longleftrightarrow>
   enforce_amount amount = None \<and>
   dgt (dadd (daily_total (m f)) amount)
     (if dgt (daily_limit s) (Finite 0) then daily_limit s else Finite 25000)"
  using enforce_amount_not_daily [of amount]
  by (auto simp: service_transfer_def enforce_daily_eq Let_def split: option.splits if_splits)

lemma deposit_succeeds_iff:
  "fst (service_deposit (Some s) (Some p) amount now m) = None \<longleftrightarrow>
   enforce_amount amount = None \<and> enforce_daily (Some s) (Some p) amount m = None \<and>
   apply_fee (Some s) amount (deposit_fee s) \<noteq> None"
  by (auto simp: service_deposit_def Let_def split: option.splits)

lemma two_deposits_of_60:
  assumes "daily_limit s = Finite 100"
    and "apply_fee (Some s) (Finite 60) (deposit_fee s) \<noteq> None"
    and "daily_total (m p) = Finite 0"
  shows "fst (service_deposit (Some s) (Some p) (Finite 60) now m) = None"
    and "daily_total (snd (service_deposit (Some s) (Some p) (Finite 60) now m) p) = Finite 60"
    and "service_deposit (Some s) (Some p) (Finite 60) now'
           (snd (service_deposit (Some s) (Some p) (Finite 60) now m))
         = (Some DailyLimitExceeded, snd (service_deposit (Some s) (Some p) (Finite 60) now m))"
proof -
  let ?m1 = "snd (service_deposit (Some s) (Some p) (Finite 60) now m)"
  show ok: "fst (service_deposit (Some s) (Some p) (Finite 60) now m) = None"
    using assms by (simp add: deposit_succeeds_iff enforce_daily_eq dgt_def)
  show tot: "daily_total (?m1 p) = Finite 60"
    using ok assms(3) by (simp add: deposit_daily_total)
  have "fst (service_deposit (Some s) (Some p) (Finite 60) now' ?m1) = Some DailyLimitExceeded"
    using assms(1) tot by (simp add: deposit_daily_limit dgt_def)
  moreover from this have "snd (service_deposit (Some s) (Some p) (Finite 60) now' ?m1) = ?m1"
    by (simp add: deposit_failure_unchanged)
  ultimately show "service_deposit (Some s) (Some p) (Finite 60) now' ?m1
      = (Some DailyLimitExceeded, ?m1)"
    by (simp add: prod_eq_iff)
qed

lemma busy_fields:
  "daily_total (busy_memory 0) = Finite 24999"
  "balance (busy_memory 0) = Finite 25499"
proof -
  let ?s = "Some blank_service"
  let ?m1 = "snd (service_deposit ?s (Some 0) (Finite 10000) 1 hero_memory)"
  let ?m2 = "snd (service_deposit ?s (Some 0) (Finite 10000) 2 ?m1)"
  let ?m3 = "snd (service_deposit ?s (Some 0) (Finite 4999) 3 ?m2)"
  have busy: "busy_memory = ?m3"
    by (simp add: busy_memory_def)
  have fee: "apply_fee ?s x (Finite 0) = Some x" for x
    by (simp add: apply_fee_def)
  have step: "daily_total (m 0) = Finite d \<Longrightarrow> balance (m 0) = Finite b \<Longrightarrow>
      enforce_amount (Finite a) = None \<Longrightarrow> rnd (d + a) = Finite (d + a) \<Longrightarrow>
      rnd (b + a) = Finite (b + a) \<Longrightarrow> d + a \<le> 25000 \<Longrightarrow>
      daily_total (snd (service_deposit ?s (Some 0) (Finite a) t m) 0) = Finite (d + a) \<and>
      balance (snd (service_deposit ?s (Some 0) (Finite a) t m) 0) = Finite (b + a)"
    for m d b a t
    by (simp add: service_deposit_def enforce_daily_eq fee blank_service_fields dgt_def)
  have 1: "daily_total (?m1 0) = Finite 10000 \<and> balance (?m1 0) = Finite 10500"
    using step [of hero_memory 0 500 10000 1] by (simp add: hero_fields)
  have 2: "daily_total (?m2 0) = Finite 20000 \<and> balance (?m2 0) = Finite 20500"
    using step [of ?m1 10000 10500 10000 2] 1 by simp
  have 3: "daily_total (?m3 0) = Finite 24999 \<and> balance (?m3 0) = Finite 25499"
    using step [of ?m2 20000 20500 4999 3] 2 by simp
  show "daily_total (busy_memory 0) = Finite 24999" "balance (busy_memory 0) = Finite 25499"
    using 3 by (simp_all only: busy)
qed

lemma one_plus_ulp_facts:
  "one_plus_ulp = Finite (1 + 1 / 2 ^ 52)"
  "representable (1 + 1 / 2 ^ 52)"
  "enforce_amount one_plus_ulp = None"
  "dadd (Finite 24999) one_plus_ulp = Finite 25000"
  "dadd (Finite 25499) one_plus_ulp = Finite 25500"
proof -
  show "one_plus_ulp = Finite (1 + 1 / 2 ^ 52)"
    by (rule one_plus_ulp_def)
  have "representable (real_of_int (2 ^ 52 + 1) * 2 powi (- 52))"
    by (rule representable_exact) simp_all
  then show "representable (1 + 1 / 2 ^ 52)"
    by (simp add: field_simps)
  show "enforce_amount one_plus_ulp = None"
    by (simp add: one_plus_ulp_def enforce_amount_def BANK_MIN_TRANSACTION_def
        BANK_MAX_TRANSACTION_def dgt_def)
  have "rnd (24999 + (1 + 1 / 2 ^ 52)) = Finite 25000"
    by (subst rnd_binade [where k = 14])
      (simp_all add: round_half_even_def Let_def overflow_threshold_def)
  then show "dadd (Finite 24999) one_plus_ulp = Finite 25000"
    by (simp only: one_plus_ulp_def dadd.simps)
  have "rnd (25499 + (1 + 1 / 2 ^ 52)) = Finite 25500"
    by (subst rnd_binade [where k = 14])
      (simp_all add: round_half_even_def Let_def overflow_threshold_def)
  then show "dadd (Finite 25499) one_plus_ulp = Finite 25500"
    by (simp only: one_plus_ulp_def dadd.simps)
qed

text \<open>
  C5, as stated, has the gate fail exactly when the daily total plus the requested amount
  is above the limit, and a success add the amount to the daily total. The code compares
  and stores the rounded sum. The hero's daily total is 24999 after deposits of 10000,
  10000 and 4999, and the limit is the default 25000. A deposit of \<open>1 + 2 ^ - 52\<close>, the
  double next above 1, would bring the total above 25000; the sum rounds to 25000, the
  gate lets it pass, the deposit succeeds, and the daily total is 25000 afterwards.
\<close>

theorem daily_limit_rounding_counterexample:
  "daily_total (busy_memory 0) = Finite 24999 \<and>
   one_plus_ulp = Finite (1 + 1 / 2 ^ 52) \<and>
   representable (1 + 1 / 2 ^ 52) \<and>
   (25000 :: real) < 24999 + (1 + 1 / 2 ^ 52) \<and>
   enforce_daily (Some blank_service) (Some 0) one_plus_ulp busy_memory = None \<and>
   fst (service_deposit (Some blank_service) (Some 0) one_plus_ulp 7 busy_memory) = None \<and>
   daily_total (snd (service_deposit (Some blank_service) (Some 0) one_plus_ulp 7 busy_memory) 0)
     = Finite 25000 \<and>
   Finite 25000 \<noteq> Finite (24999 + (1 + 1 / 2 ^ 52))"
proof -
  have gate: "enforce_daily (Some blank_service) (Some 0) one_plus_ulp busy_memory = None"
    by (simp add: enforce_daily_eq busy_fields one_plus_ulp_facts(4) blank_service_fields
        dgt_def)
  have ok: "fst (service_deposit (Some blank_service) (Some 0) one_plus_ulp 7 busy_memory)
      = None"
    by (simp add: deposit_succeeds_iff gate one_plus_ulp_facts(3) blank_service_fields
        apply_fee_def)
  have tot: "daily_total (snd (service_deposit (Some blank_service) (Some 0) one_plus_ulp 7
      busy_memory) 0) = Finite 25000"
    by (simp add: deposit_daily_total ok busy_fields one_plus_ulp_facts(4))
  show ?thesis
    by (intro conjI gate ok tot busy_fields one_plus_ulp_facts) simp_all
qed

text \<open>
  C5, amended. The daily-limit gate \<open>enforce_daily\<close> takes as limit the service's
  \<open>daily_limit\<close> when it is above 0 and 25000 otherwise, and fails exactly when the double
  nearest to the account's daily total plus the requested amount is above the limit.
  Deposit, withdraw and transfer fail at this gate exactly when the amount has passed the
  range check and that rounded sum (on the sender's daily total, for a transfer, and on the
  requested amount, before any fee) is above the limit. A successful call makes that
  rounded sum the new daily total. With a daily limit of 100 (and a deposit fee that
  \<open>apply_fee\<close> accepts on a deposit of 60) on an account whose daily total is 0, a first
  deposit of 60 succeeds and leaves the daily total at 60; a second one fails with "daily
  limit exceeded" and leaves everything, the daily total of 60 too, as it was.
\<close>

theorem daily_limit_gate:
  "enforce_daily (Some s) (Some p) amount m =
     (if dgt (dadd (daily_total (m p)) amount)
           (if dgt (daily_limit s) (Finite 0) then daily_limit s else Finite 25000)
      then Some DailyLimitExceeded else None) \<and>
   (fst (service_deposit (Some s) (Some p) amount now m) = Some DailyLimitExceeded \<longleftrightarrow>
      enforce_amount amount = None \<and>
      dgt (dadd (daily_total (m p)) amount)
        (if dgt (daily_limit s) (Finite 0) then daily_limit s else Finite 25000)) \<and>
   (fst (service_withdraw (Some s) (Some p) amount now m) = Some DailyLimitExceeded \<longleftrightarrow>
      enforce_amount amount = None \<and>
      dgt (dadd (daily_total (m p)) amount)
        (if dgt (daily_limit s) (Finite 0) then daily_limit s else Finite 25000)) \<and>
   (fst (service_transfer (Some s) (Some p) (Some t) amount now now' m)
      = Some DailyLimitExceeded \<longleftrightarrow>
      enforce_amount amount = None \<and>
      dgt (dadd (daily_total (m p)) amount)
        (if dgt (daily_limit s) (Finite 0) then daily_limit s else Finite 25000)) \<and>
   (fst (service_deposit (Some s) (Some p) amount now m) = None \<longrightarrow>
      daily_total (snd (service_deposit (Some s) (Some p) amount now m) p)
        = dadd (daily_total (m p)) amount) \<and>
   (fst (service_withdraw (Some s) (Some p) amount now m) = None \<longrightarrow>
      daily_total (snd (service_withdraw (Some s) (Some p) amount now m) p)
        = dadd (daily_total (m p)) amount) \<and>
   (fst (service_transfer (Some s) (Some p) (Some t) amount now now' m) = None \<longrightarrow>
      daily_total (snd (service_transfer (Some s) (Some p) (Some t) amount now now' m) p)
        = dadd (daily_total (m p)) amount) \<and>
   (daily_limit s = Finite 100 \<and> apply_fee (Some s) (Finite 60) (deposit_fee s) \<noteq> None \<and>
    daily_total (m p) = Finite 0 \<longrightarrow>
      fst (service_deposit (Some s) (Some p) (Finite 60) now m) = None \<and>
      daily_total (snd (service_deposit (Some s) (Some p) (Finite 60) now m) p) = Finite 60 \<and>
      service_deposit (Some s) (Some p) (Finite 60) now'
          (snd (service_deposit (Some s) (Some p) (Finite 60) now m))
        = (Some DailyLimitExceeded, snd (service_deposit (Some s) (Some p) (Finite 60) now m)))"
proof (intro conjI impI)
  assume "daily_limit s = Finite 100 \<and> apply_fee (Some s) (Finite 60) (deposit_fee s) \<noteq> None \<and>
    daily_total (m p) = Finite 0"
  then have a: "daily_limit s = Finite 100"
    and b: "apply_fee (Some s) (Finite 60) (deposit_fee s) \<noteq> None"
    and c: "daily_total (m p) = Finite 0"
    by simp_all
  show "fst (service_deposit (Some s) (Some p) (Finite 60) now m) = None"
    using a b c by (rule two_deposits_of_60)
  show "daily_total (snd (service_deposit (Some s) (Some p) (Finite 60) now m) p) = Finite 60"
    using a b c by (rule two_deposits_of_60)
  show "service_deposit (Some s) (Some p) (Finite 60) now'
          (snd (service_deposit (Some s) (Some p) (Finite 60) now m))
        = (Some DailyLimitExceeded, snd (service_deposit (Some s) (Some p) (Finite 60) now m))"
    using a b c by (rule two_deposits_of_60)
qed (simp_all add: enforce_daily_eq deposit_daily_limit withdraw_daily_limit
    transfer_daily_limit deposit_daily_total withdraw_daily_total transfer_daily_total)

lemma teller_fields:
  "deposit_fee teller = Finite 0" "withdrawal_fee teller = Finite 0"
  "transfer_fee teller = Finite 0" "investment_rate teller = Finite 0"
  "daily_limit teller = Finite 100"
  by (simp_all add: teller_def blank_service_fields)

text \<open>
  The theorem at a service without fees and with a daily limit of 100, on the hero: two
  deposits of 60, a withdrawal of 30 and a transfer of 30 to the account at address 1.
\<close>

theorem daily_limit_gate_witness:
  "daily_limit teller = Finite 100 \<and>
   apply_fee (Some teller) (Finite 60)
     (deposit_fee teller) \<noteq> None \<and>
   daily_total (hero_memory 0) = Finite 0 \<and>
   enforce_daily (Some teller) (Some 0) (Finite 60)
     hero_memory = None \<and>
   fst (service_deposit (Some teller) (Some 0)
     (Finite 60) 1 hero_memory) = None \<and>
   daily_total (snd (service_deposit (Some teller)
     (Some 0) (Finite 60) 1 hero_memory) 0) = Finite 60 \<and>
   service_deposit (Some teller) (Some 0) (Finite 60) 2
       (snd (service_deposit (Some teller) (Some 0)
          (Finite 60) 1 hero_memory))
     = (Some DailyLimitExceeded,
        snd (service_deposit (Some teller) (Some 0)
          (Finite 60) 1 hero_memory)) \<and>
   fst (service_withdraw (Some teller) (Some 0)
     (Finite 30) 1 hero_memory) = None \<and>
   daily_total (snd (service_withdraw (Some teller)
     (Some 0) (Finite 30) 1 hero_memory) 0) = Finite 30 \<and>
   fst (service_transfer (Some teller) (Some 0)
     (Some (Suc 0)) (Finite 30) 1 2 hero_memory) = None \<and>
   daily_total (snd (service_transfer (Some teller)
     (Some 0) (Some (Suc 0)) (Finite 30) 1 2 hero_memory) 0) = Finite 30 \<and>
   fst (service_deposit (Some teller) (Some 0)
     (Finite 101) 1 hero_memory) = Some DailyLimitExceeded"
proof -
  let ?s = teller
  have lim: "daily_limit ?s = Finite 100"
    by (simp add: teller_fields)
  have fee: "apply_fee (Some ?s) x (Finite 0) = Some x" for x
    by (simp add: apply_fee_def)
  have fee60: "apply_fee (Some ?s) (Finite 60) (deposit_fee ?s) \<noteq> None"
    by (simp add: fee teller_fields)
  have zero: "daily_total (hero_memory 0) = Finite 0"
    by (simp add: hero_fields)
  have wd: "fst (service_withdraw (Some ?s) (Some 0) (Finite 30) 1 hero_memory) = None"
    by (simp add: service_withdraw_def enforce_daily_eq fee hero_fields teller_fields dgt_def
        Let_def)
  have tr: "fst (service_transfer (Some ?s) (Some 0) (Some (Suc 0)) (Finite 30) 1 2
      hero_memory) = None"
    by (simp add: transfer_succeeds_iff enforce_daily_eq hero_fields teller_fields dgt_def)
  note gate = daily_limit_gate [of ?s 0 "Finite 60" hero_memory 1 "Suc 0" 2]
  note small = daily_limit_gate [of ?s 0 "Finite 30" hero_memory 1 "Suc 0" 2]
  note big = daily_limit_gate [of ?s 0 "Finite 101" hero_memory 1 "Suc 0" 2]
  have g1: "enforce_daily (Some ?s) (Some 0) (Finite 60) hero_memory = None"
    using gate [THEN conjunct1] by (simp add: hero_fields teller_fields dgt_def)
  have two: "fst (service_deposit (Some ?s) (Some 0) (Finite 60) 1 hero_memory) = None \<and>
      daily_total (snd (service_deposit (Some ?s) (Some 0) (Finite 60) 1 hero_memory) 0)
        = Finite 60 \<and>
      service_deposit (Some ?s) (Some 0) (Finite 60) 2
          (snd (service_deposit (Some ?s) (Some 0) (Finite 60) 1 hero_memory))
        = (Some DailyLimitExceeded,
           snd (service_deposit (Some ?s) (Some 0) (Finite 60) 1 hero_memory))"
    using gate [THEN conjunct2, THEN conjunct2, THEN conjunct2, THEN conjunct2, THEN conjunct2,
        THEN conjunct2, THEN conjunct2, rule_format, OF conjI [OF lim conjI [OF fee60 zero]]]
    .
  have w2: "daily_total (snd (service_withdraw (Some ?s) (Some 0) (Finite 30) 1 hero_memory) 0)
      = Finite 30"
    using small [THEN conjunct2, THEN conjunct2, THEN conjunct2, THEN conjunct2, THEN conjunct2,
        THEN conjunct1, rule_format, OF wd]
    by (simp add: hero_fields)
  have t2: "daily_total (snd (service_transfer (Some ?s) (Some 0) (Some (Suc 0)) (Finite 30) 1 2
      hero_memory) 0) = Finite 30"
    using small [THEN conjunct2, THEN conjunct2, THEN conjunct2, THEN conjunct2, THEN conjunct2,
        THEN conjunct2, THEN conjunct1, rule_format, OF tr]
    by (simp add: hero_fields)
  have b: "fst (service_deposit (Some ?s) (Some 0) (Finite 101) 1 hero_memory)
      = Some DailyLimitExceeded"
    using big [THEN conjunct2, THEN conjunct1]
    by (simp add: hero_fields teller_fields dgt_def)
  show ?thesis
    using lim fee60 zero g1 two wd w2 tr t2 b by (intro conjI) (simp_all only: simp_thms)
qed

subsection \<open>Fees\<close>

lemma apply_fee_eq:
  "apply_fee (Some s) amount fee =
     (if dle fee (Finite 0) then Some amount
      else if dlt (dsub amount fee) (Finite 1) then None
      else Some (dsub amount fee))"
  by (simp add: apply_fee_def BANK_MIN_TRANSACTION_def Let_def)

lemma dgt_zero_not_dle: "dgt a (Finite 0) \<Longrightarrow> \<not> dle a (Finite 0)"
  by (cases a) (simp_all add: dgt_def)

lemma dge_not_dlt: "dge a b \<Longrightarrow> \<not> dlt a b"
  by (cases a; cases b) (simp_all add: dge_def)

lemma apply_fee_rejects:
  "dgt fee (Finite 0) \<Longrightarrow> dlt (dsub amount fee) (Finite 1) \<Longrightarrow>
   apply_fee (Some s) amount fee = None"
  by (simp add: apply_fee_eq dgt_zero_not_dle)

lemma deposit_fee_rejection:
  assumes "apply_fee (Some s) amount (deposit_fee s) = None"
  shows "fst (service_deposit (Some s) (Some p) amount now m) \<noteq> None"
    and "snd (service_deposit (Some s) (Some p) amount now m) = m"
    and "enforce_amount amount = None \<Longrightarrow> enforce_daily (Some s) (Some p) amount m = None \<Longrightarrow>
         fst (service_deposit (Some s) (Some p) amount now m) = Some DepositFeeRejected"
proof -
  show ne: "fst (service_deposit (Some s) (Some p) amount now m) \<noteq> None"
    using assms by (simp add: deposit_succeeds_iff)
  then show "snd (service_deposit (Some s) (Some p) amount now m) = m"
    by (rule deposit_failure_unchanged)
  show "fst (service_deposit (Some s) (Some p) amount now m) = Some DepositFeeRejected"
    if "enforce_amount amount = None" "enforce_daily (Some s) (Some p) amount m = None"
    using assms that by (simp add: service_deposit_def)
qed

lemma withdraw_fee_rejection:
  assumes "apply_fee (Some s) amount (withdrawal_fee s) = None"
  shows "fst (service_withdraw (Some s) (Some p) amount now m) \<noteq> None"
    and "snd (service_withdraw (Some s) (Some p) amount now m) = m"
    and "enforce_amount amount = None \<Longrightarrow> enforce_daily (Some s) (Some p) amount m = None \<Longrightarrow>
         fst (service_withdraw (Some s) (Some p) amount now m) = Some WithdrawalFeeRejected"
proof -
  show ne: "fst (service_withdraw (Some s) (Some p) amount now m) \<noteq> None"
    using assms by (simp add: service_withdraw_def split: option.splits)
  then show "snd (service_withdraw (Some s) (Some p) amount now m) = m"
    by (rule withdraw_failure_unchanged)
  show "fst (service_withdraw (Some s) (Some p) amount now m) = Some WithdrawalFeeRejected"
    if "enforce_amount amount = None" "enforce_daily (Some s) (Some p) amount m = None"
    using assms that by (simp add: service_withdraw_def)
qed

lemma deposit_without_fee:
  assumes "dle (deposit_fee s) (Finite 0)"
    and "fst (service_deposit (Some s) (Some p) amount now m) = None"
  shows "balance (snd (service_deposit (Some s) (Some p) amount now m) p)
    = dadd (balance (m p)) amount"
  using assms
  by (simp add: service_deposit_def apply_fee_eq Let_def split: option.splits)

lemma withdraw_without_fee:
  assumes "dle (withdrawal_fee s) (Finite 0)"
    and "fst (service_withdraw (Some s) (Some p) amount now m) = None"
  shows "balance (snd (service_withdraw (Some s) (Some p) amount now m) p)
    = dsub (balance (m p)) amount"
  using assms
  by (simp add: service_withdraw_def apply_fee_eq Let_def split: option.splits if_splits)

lemma tiny_fee_facts:
  "tiny_fee = Finite (1 / 2 ^ 70)"
  "dgt tiny_fee (Finite 0)"
  "dsub (Finite 1) tiny_fee = Finite 1"
proof -
  show "tiny_fee = Finite (1 / 2 ^ 70)"
    by (rule tiny_fee_def)
  show "dgt tiny_fee (Finite 0)"
    by (simp add: tiny_fee_def dgt_def)
  have "rnd (1 + - (1 / 2 ^ 70)) = Finite 1"
    by (subst rnd_binade [where k = "- 1"])
      (simp_all add: round_half_even_def Let_def overflow_threshold_def)
  then show "dsub (Finite 1) tiny_fee = Finite 1"
    by (simp only: tiny_fee_def dsub_def dneg.simps dadd.simps)
qed

text \<open>
  C6, as stated, has every deposit and withdrawal with a positive fee and
  \<open>amount - fee < 1.0\<close> fail with the fee-rejection error. Two calls show otherwise. A
  deposit or a withdrawal of 0.5 at the demo service (fees 0.25 and 0.5) does fail, but at
  the range check, which runs first, with the below-minimum error. And a deposit of 1.0 at
  a deposit fee of \<open>2 ^ - 70\<close> succeeds: the fee is positive and \<open>1 - 2 ^ - 70\<close> is below 1,
  but the subtraction rounds to 1.0, which the check accepts; the hero's balance goes from
  500 to 501.
\<close>

theorem fee_rejection_counterexample:
  "map_option deposit_fee demo_service = Some (Finite (1/4)) \<and>
   map_option withdrawal_fee demo_service = Some (Finite (1/2)) \<and>
   dgt (Finite (1/4)) (Finite 0) \<and> dgt (Finite (1/2)) (Finite 0) \<and>
   dlt (dsub (Finite (1/2)) (Finite (1/4))) (Finite 1) \<and>
   dlt (dsub (Finite (1/2)) (Finite (1/2))) (Finite 1) \<and>
   service_deposit demo_service (Some 0) (Finite (1/2)) 7 hero_memory
     = (Some BelowMinimum, hero_memory) \<and>
   service_withdraw demo_service (Some 0) (Finite (1/2)) 7 hero_memory
     = (Some BelowMinimum, hero_memory) \<and>
   BelowMinimum \<noteq> DepositFeeRejected \<and> BelowMinimum \<noteq> WithdrawalFeeRejected \<and>
   deposit_fee clerk = tiny_fee \<and> tiny_fee = Finite (1 / 2 ^ 70) \<and>
   dgt tiny_fee (Finite 0) \<and> (1 :: real) - 1 / 2 ^ 70 < 1 \<and>
   fst (service_deposit (Some clerk) (Some 0) (Finite 1) 7 hero_memory) = None \<and>
   balance (hero_memory 0) = Finite 500 \<and>
   balance (snd (service_deposit (Some clerk) (Some 0) (Finite 1) 7 hero_memory) 0)
     = Finite 501"
proof -
  have below: "enforce_amount (Finite (1/2)) = Some BelowMinimum"
    by (simp add: enforce_amount_def BANK_MIN_TRANSACTION_def)
  have dep: "service_deposit demo_service (Some 0) (Finite (1/2)) 7 hero_memory
      = (Some BelowMinimum, hero_memory)"
    by (simp add: demo_service_eq service_deposit_def below)
  have wd: "service_withdraw demo_service (Some 0) (Finite (1/2)) 7 hero_memory
      = (Some BelowMinimum, hero_memory)"
    by (simp add: demo_service_eq service_withdraw_def below)
  have fee: "deposit_fee clerk = tiny_fee" "daily_limit clerk = Finite 0"
    by (simp_all add: clerk_def blank_service_fields)
  have pass: "apply_fee (Some clerk) (Finite 1) tiny_fee = Some (Finite 1)"
    using tiny_fee_facts(2) by (simp add: apply_fee_eq dgt_zero_not_dle tiny_fee_facts(3))
  have run: "service_deposit (Some clerk) (Some 0) (Finite 1) 7 hero_memory
      = (None, account_add_history (Some 0) 7 ''Deposit'' (Finite 1)
          (hero_memory(0 := hero_memory 0\<lparr>balance := Finite 501, daily_total := Finite 1\<rparr>)))"
    by (simp add: service_deposit_def enforce_amount_def BANK_MIN_TRANSACTION_def
        BANK_MAX_TRANSACTION_def enforce_daily_eq fee pass hero_fields dgt_def Let_def)
  have ok: "fst (service_deposit (Some clerk) (Some 0) (Finite 1) 7 hero_memory) = None"
    by (simp add: run)
  have bal: "balance (snd (service_deposit (Some clerk) (Some 0) (Finite 1) 7 hero_memory) 0)
      = Finite 501"
    by (simp add: run)
  show ?thesis
    by (intro conjI dep wd fee ok bal tiny_fee_facts hero_fields)
      (simp_all add: demo_service_eq dgt_def dsub_def)
qed

text \<open>
  C6, amended. The fee step \<open>apply_fee\<close> lets the amount through unchanged when the fee is
  at most 0; when the fee is above 0 it subtracts the fee, rounding to the nearest double,
  rejects when the rounded result is below 1.0 and lets the rounded result through when
  it is at least 1.0. For every deposit and every withdrawal whose
  configured fee is above 0 and whose rounded \<open>amount - fee\<close> is below 1.0, the call fails
  and changes nothing, and when the amount has passed the range check and the daily-limit
  gate, which run first, the failure is the fee rejection. When the fee is at most 0, a
  successful deposit adds the double nearest to balance plus the requested amount, and
  a successful withdrawal subtracts likewise. With a withdrawal fee of 5, a withdrawal of
  5.0 fails and changes nothing, with the fee rejection when the daily-limit gate admits
  the 5.0.
\<close>

theorem fee_gate_rejects_small_amounts:
  "(dle fee (Finite 0) \<longrightarrow> apply_fee (Some s) amount fee = Some amount) \<and>
   (dgt fee (Finite 0) \<and> dlt (dsub amount fee) (Finite 1) \<longrightarrow>
      apply_fee (Some s) amount fee = None) \<and>
   (dgt fee (Finite 0) \<and> dge (dsub amount fee) (Finite 1) \<longrightarrow>
      apply_fee (Some s) amount fee = Some (dsub amount fee)) \<and>
   (dgt (deposit_fee s) (Finite 0) \<and> dlt (dsub amount (deposit_fee s)) (Finite 1) \<longrightarrow>
      fst (service_deposit (Some s) (Some p) amount now m) \<noteq> None \<and>
      snd (service_deposit (Some s) (Some p) amount now m) = m \<and>
      (enforce_amount amount = None \<and> enforce_daily (Some s) (Some p) amount m = None \<longrightarrow>
         fst (service_deposit (Some s) (Some p) amount now m) = Some DepositFeeRejected)) \<and>
   (dgt (withdrawal_fee s) (Finite 0) \<and> dlt (dsub amount (withdrawal_fee s)) (Finite 1) \<longrightarrow>
      fst (service_withdraw (Some s) (Some p) amount now m) \<noteq> None \<and>
      snd (service_withdraw (Some s) (Some p) amount now m) = m \<and>
      (enforce_amount amount = None \<and> enforce_daily (Some s) (Some p) amount m = None \<longrightarrow>
         fst (service_withdraw (Some s) (Some p) amount now m) = Some WithdrawalFeeRejected)) \<and>
   (dle (deposit_fee s) (Finite 0) \<and>
    fst (service_deposit (Some s) (Some p) amount now m) = None \<longrightarrow>
      balance (snd (service_deposit (Some s) (Some p) amount now m) p)
        = dadd (balance (m p)) amount) \<and>
   (dle (withdrawal_fee s) (Finite 0) \<and>
    fst (service_withdraw (Some s) (Some p) amount now m) = None \<longrightarrow>
      balance (snd (service_withdraw (Some s) (Some p) amount now m) p)
        = dsub (balance (m p)) amount) \<and>
   (withdrawal_fee s = Finite 5 \<longrightarrow>
      fst (service_withdraw (Some s) (Some p) (Finite 5) now m) \<noteq> None \<and>
      snd (service_withdraw (Some s) (Some p) (Finite 5) now m) = m \<and>
      (enforce_daily (Some s) (Some p) (Finite 5) m = None \<longrightarrow>
         service_withdraw (Some s) (Some p) (Finite 5) now m = (Some WithdrawalFeeRejected, m)))"
proof (intro conjI impI; (elim conjE)?)
  assume "dle fee (Finite 0)"
  then show "apply_fee (Some s) amount fee = Some amount"
    by (simp add: apply_fee_eq)
next
  assume "dgt fee (Finite 0)" "dlt (dsub amount fee) (Finite 1)"
  then show "apply_fee (Some s) amount fee = None"
    by (rule apply_fee_rejects)
next
  assume "dgt fee (Finite 0)" "dge (dsub amount fee) (Finite 1)"
  then show "apply_fee (Some s) amount fee = Some (dsub amount fee)"
    by (simp add: apply_fee_eq dgt_zero_not_dle dge_not_dlt)
next
  assume "dgt (deposit_fee s) (Finite 0)" "dlt (dsub amount (deposit_fee s)) (Finite 1)"
  then have rej: "apply_fee (Some s) amount (deposit_fee s) = None"
    by (rule apply_fee_rejects)
  show "fst (service_deposit (Some s) (Some p) amount now m) \<noteq> None"
    using rej by (rule deposit_fee_rejection)
  show "snd (service_deposit (Some s) (Some p) amount now m) = m"
    using rej by (rule deposit_fee_rejection)
  show "fst (service_deposit (Some s) (Some p) amount now m) = Some DepositFeeRejected"
    if "enforce_amount amount = None" "enforce_daily (Some s) (Some p) amount m = None"
    using rej that by (rule deposit_fee_rejection)
next
  assume "dgt (withdrawal_fee s) (Finite 0)" "dlt (dsub amount (withdrawal_fee s)) (Finite 1)"
  then have rej: "apply_fee (Some s) amount (withdrawal_fee s) = None"
    by (rule apply_fee_rejects)
  show "fst (service_withdraw (Some s) (Some p) amount now m) \<noteq> None"
    using rej by (rule withdraw_fee_rejection)
  show "snd (service_withdraw (Some s) (Some p) amount now m) = m"
    using rej by (rule withdraw_fee_rejection)
  show "fst (service_withdraw (Some s) (Some p) amount now m) = Some WithdrawalFeeRejected"
    if "enforce_amount amount = None" "enforce_daily (Some s) (Some p) amount m = None"
    using rej that by (rule withdraw_fee_rejection)
next
  assume "dle (deposit_fee s) (Finite 0)"
    "fst (service_deposit (Some s) (Some p) amount now m) = None"
  then show "balance (snd (service_deposit (Some s) (Some p) amount now m) p)
        = dadd (balance (m p)) amount"
    by (rule deposit_without_fee)
next
  assume "dle (withdrawal_fee s) (Finite 0)"
    "fst (service_withdraw (Some s) (Some p) amount now m) = None"
  then show "balance (snd (service_withdraw (Some s) (Some p) amount now m) p)
        = dsub (balance (m p)) amount"
    by (rule withdraw_without_fee)
next
  assume five: "withdrawal_fee s = Finite 5"
  have rej: "apply_fee (Some s) (Finite 5) (withdrawal_fee s) = None"
    by (simp add: five apply_fee_eq dsub_def)
  show ne: "fst (service_withdraw (Some s) (Some p) (Finite 5) now m) \<noteq> None"
    using rej by (rule withdraw_fee_rejection)
  show same: "snd (service_withdraw (Some s) (Some p) (Finite 5) now m) = m"
    using rej by (rule withdraw_fee_rejection)
  show "service_withdraw (Some s) (Some p) (Finite 5) now m = (Some WithdrawalFeeRejected, m)"
    if "enforce_daily (Some s) (Some p) (Finite 5) m = None"
    using withdraw_fee_rejection(3) [OF rej _ that, of now] same
    by (simp add: prod_eq_iff)
qed

lemma cashier_fields:
  "deposit_fee cashier = Finite 5" "withdrawal_fee cashier = Finite 5"
  "daily_limit cashier = Finite 0"
  by (simp_all add: cashier_def blank_service_fields)

text \<open>
  The theorem on the hero: a deposit and a withdrawal of 5.0 at fees of 5 are rejected at
  the fee step, and a deposit and a withdrawal of 60 at a service without fees change the
  balance by 60.
\<close>

theorem fee_gate_rejects_small_amounts_witness:
  "dgt (deposit_fee cashier) (Finite 0) \<and>
   dlt (dsub (Finite 5) (deposit_fee cashier)) (Finite 1) \<and>
   dgt (withdrawal_fee cashier) (Finite 0) \<and>
   dlt (dsub (Finite 5) (withdrawal_fee cashier)) (Finite 1) \<and>
   withdrawal_fee cashier = Finite 5 \<and>
   enforce_amount (Finite 5) = None \<and>
   enforce_daily (Some cashier) (Some 0) (Finite 5) hero_memory = None \<and>
   apply_fee (Some cashier) (Finite 5) (Finite 5) = None \<and>
   apply_fee (Some cashier) (Finite 7) (Finite 5) = Some (Finite 2) \<and>
   apply_fee (Some teller) (Finite 60) (Finite 0) = Some (Finite 60) \<and>
   fst (service_deposit (Some cashier) (Some 0) (Finite 5) 7 hero_memory)
     = Some DepositFeeRejected \<and>
   snd (service_deposit (Some cashier) (Some 0) (Finite 5) 7 hero_memory) = hero_memory \<and>
   service_withdraw (Some cashier) (Some 0) (Finite 5) 7 hero_memory
     = (Some WithdrawalFeeRejected, hero_memory) \<and>
   dle (deposit_fee teller) (Finite 0) \<and> dle (withdrawal_fee teller) (Finite 0) \<and>
   fst (service_deposit (Some teller) (Some 0) (Finite 60) 7 hero_memory) = None \<and>
   balance (snd (service_deposit (Some teller) (Some 0) (Finite 60) 7 hero_memory) 0)
     = Finite 560 \<and>
   fst (service_withdraw (Some teller) (Some 0) (Finite 60) 7 hero_memory) = None \<and>
   balance (snd (service_withdraw (Some teller) (Some 0) (Finite 60) 7 hero_memory) 0)
     = Finite 440"
proof -
  note fees = fee_gate_rejects_small_amounts [where s = cashier and amount = "Finite 5" and fee = "Finite 5"
      and p = 0 and now = 7 and m = hero_memory]
  note more = fee_gate_rejects_small_amounts [where s = cashier and amount = "Finite 7" and fee = "Finite 5"
      and p = 0 and now = 7 and m = hero_memory]
  note free = fee_gate_rejects_small_amounts [where s = teller and amount = "Finite 60" and fee = "Finite 0"
      and p = 0 and now = 7 and m = hero_memory]
  have pos: "dgt (deposit_fee cashier) (Finite 0)" "dgt (withdrawal_fee cashier) (Finite 0)"
    by (simp_all add: cashier_fields dgt_def)
  have low: "dlt (dsub (Finite 5) (deposit_fee cashier)) (Finite 1)"
    "dlt (dsub (Finite 5) (withdrawal_fee cashier)) (Finite 1)"
    by (simp_all add: cashier_fields dsub_def)
  have five: "withdrawal_fee cashier = Finite 5"
    by (rule cashier_fields)
  have range: "enforce_amount (Finite 5) = None"
    by simp
  have daily: "enforce_daily (Some cashier) (Some 0) (Finite 5) hero_memory = None"
    by (simp add: enforce_daily_eq cashier_fields hero_fields dgt_def)
  have a1: "apply_fee (Some cashier) (Finite 5) (Finite 5) = None"
    using fees [THEN conjunct2, THEN conjunct1] by (simp add: dsub_def dgt_def)
  have a2: "apply_fee (Some cashier) (Finite 7) (Finite 5) = Some (Finite 2)"
    using more [THEN conjunct2, THEN conjunct2, THEN conjunct1]
    by (simp add: dsub_def dgt_def dge_def)
  have a3: "apply_fee (Some teller) (Finite 60) (Finite 0) = Some (Finite 60)"
    using free [THEN conjunct1] by simp
  note dep = fees [THEN conjunct2, THEN conjunct2, THEN conjunct2, THEN conjunct1, rule_format,
      OF conjI [OF pos(1) low(1)]]
  have d1: "fst (service_deposit (Some cashier) (Some 0) (Finite 5) 7 hero_memory)
      = Some DepositFeeRejected"
    using dep [THEN conjunct2, THEN conjunct2, rule_format, OF conjI [OF range daily]] .
  have d2: "snd (service_deposit (Some cashier) (Some 0) (Finite 5) 7 hero_memory) = hero_memory"
    using dep [THEN conjunct2, THEN conjunct1] .
  note wd = fees [THEN conjunct2, THEN conjunct2, THEN conjunct2, THEN conjunct2,
      THEN conjunct2, THEN conjunct2, THEN conjunct2, rule_format, OF five]
  have w1: "service_withdraw (Some cashier) (Some 0) (Finite 5) 7 hero_memory
      = (Some WithdrawalFeeRejected, hero_memory)"
    using wd [THEN conjunct2, THEN conjunct2, rule_format, OF daily] .
  have nofee: "dle (deposit_fee teller) (Finite 0)" "dle (withdrawal_fee teller) (Finite 0)"
    by (simp_all add: teller_fields)
  have tdaily: "enforce_daily (Some teller) (Some 0) (Finite 60) hero_memory = None"
    by (simp add: enforce_daily_eq teller_fields hero_fields dgt_def)
  have t1: "fst (service_deposit (Some teller) (Some 0) (Finite 60) 7 hero_memory) = None"
    by (simp add: deposit_succeeds_iff tdaily teller_fields apply_fee_eq)
  have t2: "balance (snd (service_deposit (Some teller) (Some 0) (Finite 60) 7 hero_memory) 0)
      = Finite 560"
    using free [THEN conjunct2, THEN conjunct2, THEN conjunct2, THEN conjunct2,
        THEN conjunct2, THEN conjunct1, rule_format, OF conjI [OF nofee(1) t1]]
    by (simp add: hero_fields)
  have t3: "fst (service_withdraw (Some teller) (Some 0) (Finite 60) 7 hero_memory) = None"
    by (simp add: service_withdraw_def tdaily teller_fields apply_fee_eq hero_fields Let_def)
  have t4: "balance (snd (service_withdraw (Some teller) (Some 0) (Finite 60) 7 hero_memory) 0)
      = Finite 440"
    using free [THEN conjunct2, THEN conjunct2, THEN conjunct2, THEN conjunct2,
        THEN conjunct2, THEN conjunct2, THEN conjunct1, rule_format,
        OF conjI [OF nofee(2) t3]]
    by (simp add: hero_fields dsub_def)
  show ?thesis
    by (intro conjI pos low five range daily a1 a2 a3 d1 d2 w1 nofee t1 t2 t3 t4)
qed

subsection \<open>The gate of an investment\<close>

lemma twin_investment: "investment_balance (twin_memory 0) = Finite 0"
  by (simp add: twin_memory_def account_reset_def)

lemma rnd_below_2_53: "rnd (9007199254740992 + - (1 / 2)) = Finite 9007199254740992"
  by (subst rnd_binade [where k = 52])
    (simp_all add: round_half_even_def Let_def overflow_threshold_def)

lemma twin_less_half: "dsub (Finite 9007199254740992) (Finite (1/2)) = Finite 9007199254740992"
  using rnd_below_2_53 by (simp only: dsub_def dneg.simps dadd.simps)

lemma invest_gate_finite:
  assumes "amount \<noteq> NaN" and "balance (m p) \<noteq> NaN"
  shows "fst (service_invest (Some s) (Some p) amount now m) = None \<longleftrightarrow>
    dgt amount (Finite 0) \<and> dge (balance (m p)) amount"
  using assms
  by (cases amount; cases "balance (m p)") (auto simp: invest_outcome dgt_def dge_def)

lemma invest_of_positive:
  assumes "0 < x" and "dge (balance (m p)) (Finite x)"
  shows "fst (service_invest (Some s) (Some p) (Finite x) now m) = None"
  using assms by (cases "balance (m p)") (auto simp: invest_outcome dge_def)

text \<open>
  C8, as stated, has an investment succeed only for an amount above 0 that the balance
  covers, and has a success lower the balance by the amount. An investment of NaN by the
  hero succeeds, although NaN is not above 0: both comparisons of the gate are false on
  NaN. Balance and investment balance are NaN afterwards. And an investment of 0.5 from a
  balance of \<open>2 ^ 53\<close> succeeds and leaves the balance at \<open>2 ^ 53\<close>, the double nearest to
  \<open>2 ^ 53 - 0.5\<close>, while the investment balance goes from 0 to 0.5.
\<close>

theorem invest_gate_counterexample:
  "\<not> dgt NaN (Finite 0) \<and> \<not> dge (balance (hero_memory 0)) NaN \<and>
   fst (service_invest demo_service (Some 0) NaN 7 hero_memory) = None \<and>
   balance (snd (service_invest demo_service (Some 0) NaN 7 hero_memory) 0) = NaN \<and>
   investment_balance (snd (service_invest demo_service (Some 0) NaN 7 hero_memory) 0) = NaN \<and>
   balance (twin_memory 0) = Finite 9007199254740992 \<and>
   investment_balance (twin_memory 0) = Finite 0 \<and>
   fst (service_invest demo_service (Some 0) (Finite (1/2)) 7 twin_memory) = None \<and>
   balance (snd (service_invest demo_service (Some 0) (Finite (1/2)) 7 twin_memory) 0)
     = Finite 9007199254740992 \<and>
   investment_balance (snd (service_invest demo_service (Some 0) (Finite (1/2)) 7 twin_memory) 0)
     = Finite (1/2)"
proof -
  have nan: "fst (service_invest demo_service (Some 0) NaN 7 hero_memory) = None"
    by (simp add: demo_service_eq invest_outcome hero_fields)
  have half: "fst (service_invest demo_service (Some 0) (Finite (1/2)) 7 twin_memory) = None"
    by (simp add: demo_service_eq invest_outcome twin_fields)
  have "balance (snd (service_invest demo_service (Some 0) NaN 7 hero_memory) 0) = NaN"
    using nan by (simp add: demo_service_eq invest_effect hero_fields dsub_def)
  moreover have
    "investment_balance (snd (service_invest demo_service (Some 0) NaN 7 hero_memory) 0) = NaN"
    using nan by (simp add: demo_service_eq invest_effect hero_fields)
  moreover have
    "balance (snd (service_invest demo_service (Some 0) (Finite (1/2)) 7 twin_memory) 0)
     = Finite 9007199254740992"
    using half by (simp add: demo_service_eq invest_effect twin_fields twin_less_half)
  moreover have
    "investment_balance (snd (service_invest demo_service (Some 0) (Finite (1/2)) 7
       twin_memory) 0) = Finite (1/2)"
    using half by (simp add: demo_service_eq invest_effect twin_investment)
  ultimately show ?thesis
    using nan half by (simp add: twin_fields twin_investment hero_fields dgt_def dge_def)
qed

text \<open>
  C8, amended. When neither the amount nor the balance is NaN, \<open>service_invest\<close>
  succeeds exactly when the amount is above 0 and the balance is at least the amount. It
  is not subject to the range check or to the daily limit: amounts of 0.5 and of 50000
  succeed whenever the balance covers them. On success the balance becomes the double
  nearest to balance minus amount, the investment balance the double nearest to
  investment balance plus amount, and the daily total is unchanged.
\<close>

theorem invest_gate:
  "(amount \<noteq> NaN \<and> balance (m p) \<noteq> NaN \<longrightarrow>
      (fst (service_invest (Some s) (Some p) amount now m) = None \<longleftrightarrow>
         dgt amount (Finite 0) \<and> dge (balance (m p)) amount)) \<and>
   (fst (service_invest (Some s) (Some p) amount now m) = None \<longrightarrow>
      balance (snd (service_invest (Some s) (Some p) amount now m) p)
        = dsub (balance (m p)) amount \<and>
      investment_balance (snd (service_invest (Some s) (Some p) amount now m) p)
        = dadd (investment_balance (m p)) amount \<and>
      daily_total (snd (service_invest (Some s) (Some p) amount now m) p)
        = daily_total (m p)) \<and>
   (dge (balance (m p)) (Finite (1/2)) \<longrightarrow>
      fst (service_invest (Some s) (Some p) (Finite (1/2)) now m) = None) \<and>
   (dge (balance (m p)) (Finite 50000) \<longrightarrow>
      fst (service_invest (Some s) (Some p) (Finite 50000) now m) = None)"
proof (intro conjI impI; (elim conjE)?)
  assume "amount \<noteq> NaN" "balance (m p) \<noteq> NaN"
  then show "fst (service_invest (Some s) (Some p) amount now m) = None \<longleftrightarrow>
         dgt amount (Finite 0) \<and> dge (balance (m p)) amount"
    by (rule invest_gate_finite)
next
  assume ok: "fst (service_invest (Some s) (Some p) amount now m) = None"
  show "balance (snd (service_invest (Some s) (Some p) amount now m) p)
        = dsub (balance (m p)) amount"
    using ok by (rule invest_effect)
  show "investment_balance (snd (service_invest (Some s) (Some p) amount now m) p)
        = dadd (investment_balance (m p)) amount"
    using ok by (rule invest_effect)
  show "daily_total (snd (service_invest (Some s) (Some p) amount now m) p)
        = daily_total (m p)"
    using ok by (rule invest_effect)
next
  assume "dge (balance (m p)) (Finite (1/2))"
  then show "fst (service_invest (Some s) (Some p) (Finite (1/2)) now m) = None"
    by (intro invest_of_positive) simp_all
next
  assume "dge (balance (m p)) (Finite 50000)"
  then show "fst (service_invest (Some s) (Some p) (Finite 50000) now m) = None"
    by (intro invest_of_positive) simp_all
qed

text \<open>
  The theorem on the hero, who invests 0.5 of a balance of 500, and on an account with a
  balance of \<open>2 ^ 53\<close>, which invests 50000; the hero cannot invest 501.
\<close>

theorem invest_gate_witness:
  "Finite (1/2) \<noteq> NaN \<and> balance (hero_memory 0) \<noteq> NaN \<and>
   dge (balance (hero_memory 0)) (Finite (1/2)) \<and>
   enforce_amount (Finite (1/2)) = Some BelowMinimum \<and>
   fst (service_invest (Some teller) (Some 0) (Finite (1/2)) 7 hero_memory) = None \<and>
   balance (snd (service_invest (Some teller) (Some 0) (Finite (1/2)) 7 hero_memory) 0)
     = Finite (999/2) \<and>
   investment_balance (snd (service_invest (Some teller) (Some 0) (Finite (1/2)) 7
     hero_memory) 0) = Finite (1/2) \<and>
   daily_total (snd (service_invest (Some teller) (Some 0) (Finite (1/2)) 7 hero_memory) 0)
     = Finite 0 \<and>
   fst (service_invest (Some teller) (Some 0) (Finite 501) 7 hero_memory) \<noteq> None \<and>
   fst (service_invest (Some teller) (Some 0) (Finite 0) 7 hero_memory) \<noteq> None \<and>
   dge (balance (twin_memory 0)) (Finite 50000) \<and>
   enforce_amount (Finite 50000) = Some AboveMaximum \<and>
   enforce_daily (Some teller) (Some 0) (Finite 50000) twin_memory = Some DailyLimitExceeded \<and>
   fst (service_invest (Some teller) (Some 0) (Finite 50000) 7 twin_memory) = None \<and>
   balance (snd (service_invest (Some teller) (Some 0) (Finite 50000) 7 twin_memory) 0)
     = Finite 9007199254690992"
proof -
  note half = invest_gate [where s = teller and p = 0 and amount = "Finite (1/2)" and now = 7
      and m = hero_memory]
  note over = invest_gate [where s = teller and p = 0 and amount = "Finite 501" and now = 7
      and m = hero_memory]
  note zero = invest_gate [where s = teller and p = 0 and amount = "Finite 0" and now = 7
      and m = hero_memory]
  note big = invest_gate [where s = teller and p = 0 and amount = "Finite 50000" and now = 7
      and m = twin_memory]
  have fin: "Finite (1/2) \<noteq> NaN" "balance (hero_memory 0) \<noteq> NaN"
    "Finite 501 \<noteq> NaN" "Finite 0 \<noteq> NaN"
    by (simp_all add: hero_fields)
  have cover: "dge (balance (hero_memory 0)) (Finite (1/2))"
    "dge (balance (twin_memory 0)) (Finite 50000)"
    by (simp_all add: hero_fields twin_fields dge_def)
  have gates: "enforce_amount (Finite (1/2)) = Some BelowMinimum"
    "enforce_amount (Finite 50000) = Some AboveMaximum"
    "enforce_daily (Some teller) (Some 0) (Finite 50000) twin_memory = Some DailyLimitExceeded"
    by (simp_all add: enforce_amount_def BANK_MIN_TRANSACTION_def BANK_MAX_TRANSACTION_def
        enforce_daily_eq teller_fields twin_fields dgt_def)
  have ok: "fst (service_invest (Some teller) (Some 0) (Finite (1/2)) 7 hero_memory) = None"
    using half [THEN conjunct2, THEN conjunct2, THEN conjunct1, rule_format, OF cover(1)] .
  note eff = half [THEN conjunct2, THEN conjunct1, rule_format, OF ok]
  have e1: "balance (snd (service_invest (Some teller) (Some 0) (Finite (1/2)) 7
      hero_memory) 0) = Finite (999/2)"
    using eff [THEN conjunct1] by (simp add: hero_fields dsub_def)
  have e2: "investment_balance (snd (service_invest (Some teller) (Some 0) (Finite (1/2)) 7
      hero_memory) 0) = Finite (1/2)"
    using eff [THEN conjunct2, THEN conjunct1] by (simp add: hero_fields)
  have e3: "daily_total (snd (service_invest (Some teller) (Some 0) (Finite (1/2)) 7
      hero_memory) 0) = Finite 0"
    using eff [THEN conjunct2, THEN conjunct2] by (simp add: hero_fields)
  have no1: "fst (service_invest (Some teller) (Some 0) (Finite 501) 7 hero_memory) \<noteq> None"
    using over [THEN conjunct1, rule_format, OF conjI [OF fin(3) fin(2)]]
    by (simp add: hero_fields dge_def)
  have no2: "fst (service_invest (Some teller) (Some 0) (Finite 0) 7 hero_memory) \<noteq> None"
    using zero [THEN conjunct1, rule_format, OF conjI [OF fin(4) fin(2)]]
    by (simp add: dgt_def)
  have ok2: "fst (service_invest (Some teller) (Some 0) (Finite 50000) 7 twin_memory) = None"
    using big [THEN conjunct2, THEN conjunct2, THEN conjunct2, rule_format, OF cover(2)] .
  have e4: "balance (snd (service_invest (Some teller) (Some 0) (Finite 50000) 7
      twin_memory) 0) = Finite 9007199254690992"
    using big [THEN conjunct2, THEN conjunct1, rule_format, OF ok2, THEN conjunct1]
    by (simp add: twin_fields dsub_def)
  show ?thesis
    by (intro conjI fin cover gates ok e1 e2 e3 no1 no2 ok2 e4)
qed

end
